theory Spec2Isabelle
  imports Main "HOL-Library.Word" "HOL-Library.List_Lexorder"
begin

section \<open>JavaScript strings\<close>

text \<open>
  The page script \<^verbatim>\<open>static/app.js\<close> works on JavaScript strings, which are sequences of
  UTF-16 code units. A string is a list of 16-bit words; \<open>lit\<close> embeds an ASCII literal
  of the source, and a code unit beyond ASCII (the dash, the bullet and the apostrophe of
  the templates) is written as its number. With the lexicographic order on lists the
  comparison of two strings is the comparison by code units that \<^verbatim>\<open>Array.prototype.sort\<close>
  uses when it is given no comparator.
\<close>

type_synonym code_unit = "16 word"
type_synonym jstring = "code_unit list"

definition lit :: "string \<Rightarrow> jstring" where
  "lit cs = map (\<lambda>c. word_of_nat (of_char c)) cs"

text \<open>
  \<^verbatim>\<open>String.prototype.trim\<close> removes the WhiteSpace and LineTerminator code points of
  ECMAScript from both ends.
\<close>

definition is_white_space :: "code_unit \<Rightarrow> bool" where
  "is_white_space c \<longleftrightarrow>
     c \<in> set [0x0009, 0x000A, 0x000B, 0x000C, 0x000D, 0x0020, 0x00A0, 0x1680,
              0x2000, 0x2001, 0x2002, 0x2003, 0x2004, 0x2005, 0x2006, 0x2007,
              0x2008, 0x2009, 0x200A, 0x2028, 0x2029, 0x202F, 0x205F, 0x3000, 0xFEFF]"

definition trim :: "jstring \<Rightarrow> jstring" where
  "trim s = rev (dropWhile is_white_space (rev (dropWhile is_white_space s)))"

text \<open>Decimal digits of a natural number: the name of an array index and the string form of a length.\<close>

fun dec :: "nat \<Rightarrow> jstring" where
  "dec n = (if n < 10 then [word_of_nat (48 + n)] else dec (n div 10) @ [word_of_nat (48 + n mod 10)])"

declare dec.simps [simp del]

section \<open>JavaScript values\<close>

text \<open>
  Every value the script handles is a string read from the query box, a value parsed from
  a JSON response body, \<^verbatim>\<open>undefined\<close> from reading a property that is not there, or the
  length of an array or string. The script never does arithmetic: of a number it only takes
  the string form (\<^verbatim>\<open>String(n)\<close>) and the truth value (\<^verbatim>\<open>n ? a : b\<close>, \<^verbatim>\<open>n || d\<close>), so a
  Number is kept as exactly these two observations. JSON never yields NaN, hence a number
  is falsy exactly when it is zero, and \<^verbatim>\<open>n === 0\<close> is the negation of its truth value.

  An object is the list of its own enumerable properties in the order in which
  \<^verbatim>\<open>Object.keys\<close> and \<^verbatim>\<open>Object.entries\<close> enumerate them; the keys of a real object are
  distinct, and a lookup takes the first entry of a key.
\<close>

datatype jserror = TypeError | URIError | SyntaxError | NetworkError | Thrown jstring

datatype jsnum = Num (num_string: jstring) (num_truthy: bool)

datatype jsval =
    JUndefined
  | JNull
  | JBool bool
  | JNum jsnum
  | JStr jstring
  | JArr "jsval list"
  | JObj "(jstring \<times> jsval) list"

text \<open>Exceptions are values: \<open>Inl\<close> is a throw, and \<open>and_then\<close> sequences two steps.\<close>

definition and_then :: "jserror + 'a \<Rightarrow> ('a \<Rightarrow> jserror + 'b) \<Rightarrow> jserror + 'b" where
  "and_then m f = (case m of Inl e \<Rightarrow> Inl e | Inr x \<Rightarrow> f x)"

text \<open>Evaluating a list of expressions from left to right: the first throw ends it.\<close>

fun in_order :: "(jserror + 'a) list \<Rightarrow> jserror + 'a list" where
  "in_order [] = Inr []"
| "in_order (m # ms) =
     (case m of Inl e \<Rightarrow> Inl e
      | Inr x \<Rightarrow> (case in_order ms of Inl e \<Rightarrow> Inl e | Inr xs \<Rightarrow> Inr (x # xs)))"

definition is_nullish :: "jsval \<Rightarrow> bool" where
  "is_nullish v \<longleftrightarrow> v = JUndefined \<or> v = JNull"

text \<open>
  \<^verbatim>\<open>String(v)\<close>. An array is the comma-joined string forms of its elements, a null or
  undefined element giving the empty string. A plain object is \<^verbatim>\<open>[object Object]\<close>
  through \<^verbatim>\<open>Object.prototype.toString\<close>; an own property named \<^verbatim>\<open>toString\<close> shadows
  that method, and as no JSON value is callable the conversion then falls through
  \<^verbatim>\<open>valueOf\<close> (which returns the object) to a TypeError.
\<close>

fun ToString :: "jsval \<Rightarrow> jserror + jstring"
and join_comma :: "jsval list \<Rightarrow> jserror + jstring" where
  "ToString JUndefined = Inr (lit ''undefined'')"
| "ToString JNull = Inr (lit ''null'')"
| "ToString (JBool b) = Inr (if b then lit ''true'' else lit ''false'')"
| "ToString (JNum n) = Inr (num_string n)"
| "ToString (JStr s) = Inr s"
| "ToString (JArr xs) = join_comma xs"
| "ToString (JObj kvs) =
     (if lit ''toString'' \<in> set (map fst kvs) then Inl TypeError
      else Inr (lit ''[object Object]''))"
| "join_comma [] = Inr []"
| "join_comma (x # xs) =
     (case (if is_nullish x then Inr [] else ToString x) of
        Inl e \<Rightarrow> Inl e
      | Inr s \<Rightarrow>
          (if xs = [] then Inr s
           else (case join_comma xs of Inl e \<Rightarrow> Inl e | Inr t \<Rightarrow> Inr (s @ lit '','' @ t))))"

text \<open>Truthiness, \<^verbatim>\<open>a || b\<close> and \<^verbatim>\<open>a ?? b\<close>.\<close>

fun ToBoolean :: "jsval \<Rightarrow> bool" where
  "ToBoolean JUndefined = False"
| "ToBoolean JNull = False"
| "ToBoolean (JBool b) = b"
| "ToBoolean (JNum n) = num_truthy n"
| "ToBoolean (JStr s) = (s \<noteq> [])"
| "ToBoolean (JArr xs) = True"
| "ToBoolean (JObj kvs) = True"

definition or_else :: "jsval \<Rightarrow> jsval \<Rightarrow> jsval" where
  "or_else a b = (if ToBoolean a then a else b)"

definition coalesce :: "jsval \<Rightarrow> jsval \<Rightarrow> jsval" where
  "coalesce a b = (if is_nullish a then b else a)"

text \<open>
  Own enumerable properties of a value that is neither null nor undefined: the entries of
  an object, the indexed elements of an array, the indexed code units of a string, none
  for a boolean or a number.
\<close>

fun own_entries :: "jsval \<Rightarrow> (jstring \<times> jsval) list" where
  "own_entries (JObj kvs) = kvs"
| "own_entries (JArr xs) = zip (map dec [0..<length xs]) xs"
| "own_entries (JStr s) = zip (map dec [0..<length s]) (map (\<lambda>c. JStr [c]) s)"
| "own_entries v = []"

definition Object_entries :: "jsval \<Rightarrow> jserror + (jstring \<times> jsval) list" where
  "Object_entries v = (if is_nullish v then Inl TypeError else Inr (own_entries v))"

definition Object_keys :: "jsval \<Rightarrow> jserror + jstring list" where
  "Object_keys v = (if is_nullish v then Inl TypeError else Inr (map fst (own_entries v)))"

text \<open>
  Reading a property, \<^verbatim>\<open>v.k\<close> or \<^verbatim>\<open>v[k]\<close>: a TypeError on null and undefined, the own
  property if there is one, the \<^verbatim>\<open>length\<close> of an array or string, and otherwise
  \<^verbatim>\<open>undefined\<close>. The script reads only the field names of the API and the keys that
  \<^verbatim>\<open>Object.keys\<close> returned, none of which a built-in prototype defines.
\<close>

fun length_of :: "jsval \<Rightarrow> nat option" where
  "length_of (JArr xs) = Some (length xs)"
| "length_of (JStr s) = Some (length s)"
| "length_of v = None"

definition Get :: "jsval \<Rightarrow> jstring \<Rightarrow> jserror + jsval" where
  "Get v k =
     (if is_nullish v then Inl TypeError
      else (case map_of (own_entries v) k of
              Some x \<Rightarrow> Inr x
            | None \<Rightarrow>
                (case length_of v of
                   Some n \<Rightarrow> if k = lit ''length'' then Inr (JNum (Num (dec n) (n \<noteq> 0))) else Inr JUndefined
                 | None \<Rightarrow> Inr JUndefined)))"

definition strict_equals_zero :: "jsval \<Rightarrow> bool" where
  "strict_equals_zero v = (case v of JNum n \<Rightarrow> \<not> num_truthy n | _ \<Rightarrow> False)"

section \<open>encodeURIComponent\<close>

text \<open>
  The Encode operation of ECMAScript with the unreserved set of \<^verbatim>\<open>encodeURIComponent\<close>:
  an unreserved code unit is copied, any other code point is written as the percent-escaped
  octets of its UTF-8 encoding, and a surrogate that is not part of a pair throws a URIError.
\<close>

definition uri_unescaped :: "code_unit \<Rightarrow> bool" where
  "uri_unescaped c \<longleftrightarrow>
     (0x41 \<le> c \<and> c \<le> 0x5A) \<or> (0x61 \<le> c \<and> c \<le> 0x7A) \<or> (0x30 \<le> c \<and> c \<le> 0x39) \<or>
     c \<in> set [0x2D, 0x5F, 0x2E, 0x21, 0x7E, 0x2A, 0x27, 0x28, 0x29]"

definition is_lead :: "code_unit \<Rightarrow> bool" where
  "is_lead c \<longleftrightarrow> 0xD800 \<le> c \<and> c \<le> 0xDBFF"

definition is_trail :: "code_unit \<Rightarrow> bool" where
  "is_trail c \<longleftrightarrow> 0xDC00 \<le> c \<and> c \<le> 0xDFFF"

definition utf8 :: "nat \<Rightarrow> nat list" where
  "utf8 cp =
     (if cp < 0x80 then [cp]
      else if cp < 0x800 then [0xC0 + cp div 0x40, 0x80 + cp mod 0x40]
      else if cp < 0x10000 then
        [0xE0 + cp div 0x1000, 0x80 + cp div 0x40 mod 0x40, 0x80 + cp mod 0x40]
      else
        [0xF0 + cp div 0x40000, 0x80 + cp div 0x1000 mod 0x40,
         0x80 + cp div 0x40 mod 0x40, 0x80 + cp mod 0x40])"

definition hex_digit :: "nat \<Rightarrow> code_unit" where
  "hex_digit d = (if d < 10 then word_of_nat (0x30 + d) else word_of_nat (0x41 + (d - 10)))"

definition percent :: "nat list \<Rightarrow> jstring" where
  "percent octets = concat (map (\<lambda>b. [0x25, hex_digit (b div 16), hex_digit (b mod 16)]) octets)"

fun encodeURIComponent :: "jstring \<Rightarrow> jserror + jstring" where
  "encodeURIComponent [] = Inr []"
| "encodeURIComponent [c] =
     (if uri_unescaped c then Inr [c]
      else if is_lead c \<or> is_trail c then Inl URIError
      else Inr (percent (utf8 (unat c))))"
| "encodeURIComponent (c # d # ds) =
     (if uri_unescaped c then and_then (encodeURIComponent (d # ds)) (\<lambda>r. Inr (c # r))
      else if is_trail c then Inl URIError
      else if is_lead c then
        (if is_trail d then
           and_then (encodeURIComponent ds)
             (\<lambda>r. Inr (percent (utf8 ((unat c - 0xD800) * 0x400 + (unat d - 0xDC00) + 0x10000)) @ r))
         else Inl URIError)
      else and_then (encodeURIComponent (d # ds)) (\<lambda>r. Inr (percent (utf8 (unat c)) @ r)))"

text \<open>A string is well formed when every surrogate code unit is part of a pair.\<close>

fun isWellFormed :: "jstring \<Rightarrow> bool" where
  "isWellFormed [] = True"
| "isWellFormed [c] = (\<not> is_lead c \<and> \<not> is_trail c)"
| "isWellFormed (c # d # ds) =
     (if is_lead c then is_trail d \<and> isWellFormed ds
      else \<not> is_trail c \<and> isWellFormed (d # ds))"

section \<open>Template literals and escapeHtml\<close>

text \<open>
  A template literal is its list of literal strings and the string forms of its
  substitutions, evaluated from left to right: \<open>n\<close> substitutions stand between
  \<open>n + 1\<close> strings.
\<close>

fun template :: "jstring list \<Rightarrow> jstring list \<Rightarrow> jstring" where
  "template [] vs = []"
| "template (s # ss) [] = s"
| "template (s # ss) (v # vs) = s @ v @ template ss vs"

text \<open>
  \<^verbatim>\<open>escapeHtml\<close>, lines 219 to 229: the global replace of the character class
  \<^verbatim>\<open>[&<>"']\<close> by the entry of the table for the matched character. A character that the
  table does not hold would be replaced by the string form of \<^verbatim>\<open>undefined\<close>.
\<close>

definition html_special :: "code_unit \<Rightarrow> bool" where
  "html_special c \<longleftrightarrow> c \<in> set [0x26, 0x3C, 0x3E, 0x22, 0x27]"

definition entity_table :: "(code_unit \<times> jstring) list" where
  "entity_table =
     [(0x26, lit ''&amp;''), (0x3C, lit ''&lt;''), (0x3E, lit ''&gt;''),
      (0x22, lit ''&quot;''), (0x27, lit ''&#039;'')]"

definition entity :: "code_unit \<Rightarrow> jstring" where
  "entity c = (case map_of entity_table c of Some e \<Rightarrow> e | None \<Rightarrow> lit ''undefined'')"

definition replace_special :: "jstring \<Rightarrow> jstring" where
  "replace_special s = concat (map (\<lambda>c. if html_special c then entity c else [c]) s)"

definition escapeHtml :: "jsval \<Rightarrow> jserror + jstring" where
  "escapeHtml v = and_then (ToString v) (\<lambda>s. Inr (replace_special s))"

text \<open>\<^verbatim>\<open>escapeHtml(obj.k)\<close> and \<^verbatim>\<open>escapeHtml(obj.k || d)\<close>, the two shapes of a substitution.\<close>

definition esc_field :: "jsval \<Rightarrow> string \<Rightarrow> jserror + jstring" where
  "esc_field obj k = and_then (Get obj (lit k)) escapeHtml"

definition esc_field_or :: "jsval \<Rightarrow> string \<Rightarrow> jstring \<Rightarrow> jserror + jstring" where
  "esc_field_or obj k d = and_then (Get obj (lit k)) (\<lambda>v. escapeHtml (or_else v (JStr d)))"

section \<open>The templates of the page\<close>

text \<open>The literal strings of each template of \<^verbatim>\<open>app.js\<close>, line breaks and indentation included.\<close>

text \<open>Lines 46 to 85, the dashboard of \<^verbatim>\<open>loadInsights\<close>.\<close>

definition insights_strings :: "jstring list" where
  \<open>insights_strings =
    [lit ''\<newline>'' @
      lit ''          <div class="insight-grid">\<newline>'' @
      lit ''            <div class="insight">\<newline>'' @
      lit ''              <div class="insight-k">Total records</div>\<newline>'' @
      lit ''              <div class="insight-v">'',
     lit ''</div>\<newline>'' @
      lit ''            </div>\<newline>'' @
      lit ''            <div class="insight">\<newline>'' @
      lit ''              <div class="insight-k">Total amount</div>\<newline>'' @
      lit ''              <div class="insight-v">$'',
     lit ''</div>\<newline>'' @
      lit ''            </div>\<newline>'' @
      lit ''            <div class="insight">\<newline>'' @
      lit ''              <div class="insight-k">Missing email</div>\<newline>'' @
      lit ''              <div class="insight-v">'',
     lit ''%</div>\<newline>'' @
      lit ''            </div>\<newline>'' @
      lit ''            <div class="insight">\<newline>'' @
      lit ''              <div class="insight-k">Missing phone</div>\<newline>'' @
      lit ''              <div class="insight-v">'',
     lit ''%</div>\<newline>'' @
      lit ''            </div>\<newline>'' @
      lit ''            <div class="insight">\<newline>'' @
      lit ''              <div class="insight-k">Duplicate emails</div>\<newline>'' @
      lit ''              <div class="insight-v">'',
     lit ''</div>\<newline>'' @
      lit ''            </div>\<newline>'' @
      lit ''            <div class="insight">\<newline>'' @
      lit ''              <div class="insight-k">Duplicate phones</div>\<newline>'' @
      lit ''              <div class="insight-v">'',
     lit ''</div>\<newline>'' @
      lit ''            </div>\<newline>'' @
      lit ''          </div>\<newline>'' @
      lit ''\<newline>'' @
      lit ''          <div class="insight-sep"></div>\<newline>'' @
      lit ''\<newline>'' @
      lit ''          <div class="mini">\<newline>'' @
      lit ''            <div class="mini-title">Top events</div>\<newline>'' @
      lit ''            '',
     lit ''\<newline>'' @
      lit ''          </div>\<newline>'' @
      lit ''\<newline>'' @
      lit ''          <div class="mini" style="margin-top:12px;">\<newline>'' @
      lit ''            <div class="mini-title">Payment status</div>\<newline>'' @
      lit ''            '',
     lit ''\<newline>'' @
      lit ''          </div>\<newline>'' @
      lit ''        '']\<close>

text \<open>Line 88.\<close>

definition insights_error_strings :: "jstring list" where
  \<open>insights_error_strings =
    [lit ''<div class="muted">Couldn'' @
      [0x2019] @
      lit ''t load insights.</div>'']\<close>

text \<open>Line 96.\<close>

definition no_data_strings :: "jstring list" where
  \<open>no_data_strings =
    [lit ''<div class="muted">No data.</div>'']\<close>

text \<open>Lines 99 to 107, the list of \<^verbatim>\<open>renderMiniList\<close>; its substitution is the joined rows.\<close>

definition mini_list_strings :: "jstring list" where
  \<open>mini_list_strings =
    [lit ''\<newline>'' @
      lit ''      <div class="mini-list">\<newline>'' @
      lit ''        '',
     lit ''\<newline>'' @
      lit ''      </div>\<newline>'' @
      lit ''    '']\<close>

text \<open>Line 103, one row of the list.\<close>

definition mini_row_strings :: "jstring list" where
  \<open>mini_row_strings =
    [lit ''<div class="mini-row"><span>'',
     lit ''</span><b>'',
     lit ''</b></div>'']\<close>

text \<open>Line 118.\<close>

definition details_hint_strings :: "jstring list" where
  \<open>details_hint_strings =
    [lit ''<div class="muted">Click a result to see full fields.</div>'']\<close>

text \<open>Line 131.\<close>

definition no_matches_strings :: "jstring list" where
  \<open>no_matches_strings =
    [lit ''<div class="muted">No matches.</div>'']\<close>

text \<open>Lines 139 to 147, the markup of a result card.\<close>

definition card_strings :: "jstring list" where
  \<open>card_strings =
    [lit ''\<newline>'' @
      lit ''            <div class="result-top">\<newline>'' @
      lit ''              <div class="result-name">'',
     lit ''</div>\<newline>'' @
      lit ''              <div class="pill">'',
     lit ''</div>\<newline>'' @
      lit ''            </div>\<newline>'' @
      lit ''            <div class="result-sub">'',
     lit '' '' @
      [0x2022] @
      lit '' '',
     lit ''</div>\<newline>'' @
      lit ''            <div class="result-sub">'',
     lit '' '',
     lit ''</div>\<newline>'' @
      lit ''            <div class="result-meta">'',
     lit ''</div>\<newline>'' @
      lit ''          '']\<close>

text \<open>Line 157.\<close>

definition search_error_strings :: "jstring list" where
  \<open>search_error_strings =
    [lit ''<div class="muted">Couldn'' @
      [0x2019] @
      lit ''t run search right now.</div>'']\<close>

text \<open>Line 174, the block of an error message.\<close>

definition record_error_strings :: "jstring list" where
  \<open>record_error_strings =
    [lit ''<div class="muted">'',
     lit ''</div>'']\<close>

text \<open>Lines 181 to 204, the head of the details layout, up to the opening tag of the rows.\<close>

definition details_head_strings :: "jstring list" where
  \<open>details_head_strings =
    [lit ''\<newline>'' @
      lit ''          <div class="details-head">\<newline>'' @
      lit ''            <div>\<newline>'' @
      lit ''              <div class="details-title">'',
     lit ''</div>\<newline>'' @
      lit ''              <div class="details-sub">'',
     lit '' '' @
      [0x2022] @
      lit '' '',
     lit ''</div>\<newline>'' @
      lit ''            </div>\<newline>'' @
      lit ''            <div class="details-tag">'',
     lit ''</div>\<newline>'' @
      lit ''          </div>\<newline>'' @
      lit ''\<newline>'' @
      lit ''          <div class="details-meta">\<newline>'' @
      lit ''            Source: '',
     lit '':'',
     lit ''\<newline>'' @
      lit ''          </div>\<newline>'' @
      lit ''\<newline>'' @
      lit ''          <div class="details-mini">\<newline>'' @
      lit ''            <div><span>Event</span><b>'',
     lit ''</b></div>\<newline>'' @
      lit ''            <div><span>Type</span><b>'',
     lit ''</b></div>\<newline>'' @
      lit ''            <div><span>Date</span><b>'',
     lit ''</b></div>\<newline>'' @
      lit ''            <div><span>Amount</span><b>'',
     lit ''</b></div>\<newline>'' @
      lit ''          </div>\<newline>'' @
      lit ''\<newline>'' @
      lit ''          <div class="details-divider"></div>\<newline>'' @
      lit ''\<newline>'' @
      lit ''          <div class="kv">\<newline>'' @
      lit ''        '']\<close>

text \<open>Line 207, one key/value row.\<close>

definition kv_row_strings :: "jstring list" where
  \<open>kv_row_strings =
    [lit ''<div class="k">'',
     lit ''</div><div class="v">'',
     lit ''</div>'']\<close>

text \<open>Line 214.\<close>

definition details_error_strings :: "jstring list" where
  \<open>details_error_strings =
    [lit ''<div class="muted">Couldn'' @
      [0x2019] @
      lit ''t load this record.</div>'']\<close>

section \<open>The page\<close>

text \<open>
  \<^verbatim>\<open>setupSearchPage\<close> looks up the query box, the button and the three panels, returns if
  one of them is missing, calls \<^verbatim>\<open>loadInsights\<close> and registers \<^verbatim>\<open>doSearch\<close> for a click of
  the button and for the Enter key in the query box. The functions below are the closures
  it defines over these elements.

  The state of the page: the text of the query box, the markup last assigned to
  \<^verbatim>\<open>innerHTML\<close> of the three panels, the buttons appended to the results panel since,
  and the URLs passed to \<^verbatim>\<open>fetch\<close>, oldest first. Assigning \<^verbatim>\<open>innerHTML\<close> of the results
  panel removes its buttons. A result card keeps the record its click listener closes over.
\<close>

record result_card =
  card_type :: jstring
  card_className :: jstring
  card_innerHTML :: jstring
  card_record :: jsval

record ui =
  q_value :: jstring
  insights_html :: jstring
  results_html :: jstring
  results_cards :: "result_card list"
  details_html :: jstring
  requests :: "jstring list"

text \<open>
  A \<^verbatim>\<open>fetch\<close> settles later: it is rejected, or it is answered with a status that is ok or
  not and a body that \<^verbatim>\<open>response.json()\<close> parses or rejects. Each function of the page
  chains \<^verbatim>\<open>.then(on_response).then(on_data).catch(on_error)\<close>: a throw of either callback,
  like a rejection, runs the catch callback on the state as the throw left it, and the
  chain ends fulfilled.
\<close>

datatype fetch_outcome = Rejected | Responded bool "jserror + jsval"

definition then_then_catch ::
  "(bool \<Rightarrow> (jserror + jsval) \<Rightarrow> jserror + jsval) \<Rightarrow> (jsval \<Rightarrow> ui \<Rightarrow> (jserror + unit) \<times> ui) \<Rightarrow>
   (ui \<Rightarrow> ui) \<Rightarrow> fetch_outcome \<Rightarrow> ui \<Rightarrow> (jserror + unit) \<times> ui" where
  "then_then_catch on_response on_data on_error outcome s =
     (case (case outcome of Rejected \<Rightarrow> Inl NetworkError
            | Responded ok body \<Rightarrow> on_response ok body) of
        Inl e \<Rightarrow> (Inr (), on_error s)
      | Inr d \<Rightarrow>
          (case on_data d s of
             (Inl e, s') \<Rightarrow> (Inr (), on_error s')
           | (Inr u, s') \<Rightarrow> (Inr u, s')))"

subsection \<open>loadInsights and renderMiniList\<close>

text \<open>
  \<^verbatim>\<open>renderMiniList\<close>, lines 93 to 108, and \<^verbatim>\<open>loadInsights\<close>, lines 35 to 90: the part that
  runs at once, its three callbacks, and the chain of the three once the request settles.
\<close>

definition mini_row :: "jstring \<times> jsval \<Rightarrow> jserror + jstring" where
  "mini_row pair =
     and_then (in_order [escapeHtml (JStr (fst pair)), escapeHtml (snd pair)])
       (\<lambda>vs. Inr (template mini_row_strings vs))"

definition renderMiniList :: "jsval \<Rightarrow> jserror + jstring" where
  "renderMiniList obj =
     and_then (Object_entries (or_else obj (JObj [])))
       (\<lambda>entries.
          if length entries = 0 then Inr (template no_data_strings [])
          else and_then (in_order (map mini_row entries))
                 (\<lambda>rows. Inr (template mini_list_strings [concat rows])))"

definition loadInsights :: "ui \<Rightarrow> ui" where
  "loadInsights s =
     s\<lparr>insights_html := lit ''Loading...'', requests := requests s @ [lit ''/api/insights'']\<rparr>"

definition loadInsights_on_response :: "bool \<Rightarrow> (jserror + jsval) \<Rightarrow> jserror + jsval" where
  "loadInsights_on_response ok body =
     (if \<not> ok then Inl (Thrown (lit ''Could not load insights.'')) else body)"

definition loadInsights_on_data :: "jsval \<Rightarrow> ui \<Rightarrow> (jserror + unit) \<times> ui" where
  "loadInsights_on_data data s =
     (case in_order
        [esc_field data ''total_records'',
         esc_field data ''total_amount'',
         esc_field data ''missing_email_pct'',
         esc_field data ''missing_phone_pct'',
         esc_field data ''duplicate_emails'',
         esc_field data ''duplicate_phones'',
         and_then (Get data (lit ''top_events'')) renderMiniList,
         and_then (Get data (lit ''top_payment_status'')) renderMiniList] of
        Inl e \<Rightarrow> (Inl e, s)
      | Inr vs \<Rightarrow> (Inr (), s\<lparr>insights_html := template insights_strings vs\<rparr>))"

definition loadInsights_on_error :: "ui \<Rightarrow> ui" where
  "loadInsights_on_error s = s\<lparr>insights_html := template insights_error_strings []\<rparr>"

definition loadInsights_settled :: "fetch_outcome \<Rightarrow> ui \<Rightarrow> (jserror + unit) \<times> ui" where
  "loadInsights_settled =
     then_then_catch loadInsights_on_response loadInsights_on_data loadInsights_on_error"

subsection \<open>doSearch\<close>

text \<open>
  \<^verbatim>\<open>doSearch\<close>, lines 111 to 159. The part that runs at once can throw: the URL is built
  before \<^verbatim>\<open>fetch\<close> is called, outside the chain. The data callback empties the panel, then
  shows the notice or appends one button per element of \<^verbatim>\<open>data.results\<close>;
  \<^verbatim>\<open>forEach\<close> is a method of arrays only.
\<close>

definition set_results :: "jstring \<Rightarrow> ui \<Rightarrow> ui" where
  "set_results html s = s\<lparr>results_html := html, results_cards := []\<rparr>"

definition doSearch :: "ui \<Rightarrow> (jserror + unit) \<times> ui" where
  "doSearch s =
     (let q = (if q_value s \<noteq> [] then trim (q_value s) else []) in
      if q = [] then (Inr (), s)
      else
        (let s1 = (set_results (lit ''Searching...'') s)
                    \<lparr>details_html := template details_hint_strings []\<rparr> in
         case encodeURIComponent q of
           Inl e \<Rightarrow> (Inl e, s1)
         | Inr e \<Rightarrow>
             (Inr (), s1\<lparr>requests := requests s1 @ [lit ''/api/search?q='' @ e @ lit ''&limit=25'']\<rparr>)))"

definition doSearch_on_response :: "bool \<Rightarrow> (jserror + jsval) \<Rightarrow> jserror + jsval" where
  "doSearch_on_response ok body =
     (if \<not> ok then Inl (Thrown (lit ''Search request failed.'')) else body)"

definition card_markup :: "jsval \<Rightarrow> jserror + jstring" where
  "card_markup r =
     and_then
       (in_order
          [esc_field_or r ''name'' (lit ''(no name)''),
           esc_field_or r ''payment_status'' [0x2014],
           esc_field_or r ''email'' (lit ''(no email)''),
           esc_field_or r ''phone'' (lit ''(no phone)''),
           esc_field_or r ''event_name'' [],
           and_then (Get r (lit ''amount''))
             (\<lambda>a. if ToBoolean a
                   then and_then (esc_field r ''amount'') (\<lambda>e. Inr ([0x2022] @ lit '' '' @ e))
                   else Inr []),
           esc_field_or r ''source'' []])
       (\<lambda>vs. Inr (template card_strings vs))"

definition make_card :: "jsval \<Rightarrow> jserror + result_card" where
  "make_card r =
     and_then (card_markup r)
       (\<lambda>html. Inr \<lparr>card_type = lit ''button'', card_className = lit ''result-card'',
                     card_innerHTML = html, card_record = r\<rparr>)"

fun forEach_record :: "jsval list \<Rightarrow> ui \<Rightarrow> (jserror + unit) \<times> ui" where
  "forEach_record [] s = (Inr (), s)"
| "forEach_record (r # rs) s =
     (case make_card r of
        Inl e \<Rightarrow> (Inl e, s)
      | Inr c \<Rightarrow> forEach_record rs (s\<lparr>results_cards := results_cards s @ [c]\<rparr>))"

definition doSearch_on_data :: "jsval \<Rightarrow> ui \<Rightarrow> (jserror + unit) \<times> ui" where
  "doSearch_on_data data s =
     (let s1 = set_results [] s in
      case Get data (lit ''results'') of
        Inl e \<Rightarrow> (Inl e, s1)
      | Inr results \<Rightarrow>
          (case (if \<not> ToBoolean results then Inr True
                 else and_then (Get results (lit ''length'')) (\<lambda>n. Inr (strict_equals_zero n))) of
             Inl e \<Rightarrow> (Inl e, s1)
           | Inr True \<Rightarrow> (Inr (), set_results (template no_matches_strings []) s1)
           | Inr False \<Rightarrow>
               (case results of
                  JArr rs \<Rightarrow> forEach_record rs s1
                | _ \<Rightarrow> (Inl TypeError, s1))))"

definition doSearch_on_error :: "ui \<Rightarrow> ui" where
  "doSearch_on_error s = set_results (template search_error_strings []) s"

definition doSearch_settled :: "fetch_outcome \<Rightarrow> ui \<Rightarrow> (jserror + unit) \<times> ui" where
  "doSearch_settled = then_then_catch doSearch_on_response doSearch_on_data doSearch_on_error"

subsection \<open>loadDetails\<close>

text \<open>
  \<^verbatim>\<open>loadDetails\<close>, lines 162 to 216, and the click listener of a card, lines 149 to 151.
  The data callback shows the error message when \<^verbatim>\<open>data.error\<close> is truthy; otherwise it
  builds the head of the layout and appends one row per key of \<^verbatim>\<open>data.raw || {}\<close>, the
  keys sorted.
\<close>

definition loadDetails :: "jsval \<Rightarrow> ui \<Rightarrow> (jserror + unit) \<times> ui" where
  "loadDetails rid s =
     (let s1 = s\<lparr>details_html := lit ''Loading...''\<rparr> in
      case and_then (ToString rid) encodeURIComponent of
        Inl e \<Rightarrow> (Inl e, s1)
      | Inr e \<Rightarrow> (Inr (), s1\<lparr>requests := requests s1 @ [lit ''/api/record?record_id='' @ e]\<rparr>))"

definition card_click :: "result_card \<Rightarrow> ui \<Rightarrow> (jserror + unit) \<times> ui" where
  "card_click c s =
     (case Get (card_record c) (lit ''id'') of
        Inl e \<Rightarrow> (Inl e, s)
      | Inr rid \<Rightarrow> loadDetails rid s)"

definition loadDetails_on_response :: "bool \<Rightarrow> (jserror + jsval) \<Rightarrow> jserror + jsval" where
  "loadDetails_on_response ok body =
     (if \<not> ok then Inl (Thrown (lit ''Record request failed.'')) else body)"

definition details_head :: "jsval \<Rightarrow> jserror + jstring" where
  "details_head data =
     and_then
       (in_order
          [esc_field_or data ''name'' [],
           esc_field_or data ''email'' [],
           esc_field_or data ''phone'' [],
           esc_field_or data ''payment_status'' [0x2014],
           esc_field data ''source_file'',
           esc_field data ''row_num'',
           esc_field_or data ''event_name'' [0x2014],
           esc_field_or data ''activity_type'' [0x2014],
           esc_field_or data ''activity_date'' [0x2014],
           esc_field_or data ''amount'' [0x2014]])
       (\<lambda>vs. Inr (template details_head_strings vs))"

definition kv_row :: "jsval \<Rightarrow> jstring \<Rightarrow> jserror + jstring" where
  "kv_row raw key =
     and_then
       (in_order
          [escapeHtml (JStr key),
           and_then (Get raw key)
             (\<lambda>v. and_then (ToString (coalesce v (JStr []))) (\<lambda>t. escapeHtml (JStr t)))])
       (\<lambda>vs. Inr (template kv_row_strings vs))"

fun forEach_key :: "jsval \<Rightarrow> jstring list \<Rightarrow> jstring \<Rightarrow> jserror + jstring" where
  "forEach_key raw [] html = Inr html"
| "forEach_key raw (key # keys) html =
     and_then (kv_row raw key) (\<lambda>row. forEach_key raw keys (html @ row))"

definition loadDetails_on_data :: "jsval \<Rightarrow> ui \<Rightarrow> (jserror + unit) \<times> ui" where
  "loadDetails_on_data data s =
     (case Get data (lit ''error'') of
        Inl e \<Rightarrow> (Inl e, s)
      | Inr err \<Rightarrow>
          if ToBoolean err then
            (case esc_field data ''error'' of
               Inl e \<Rightarrow> (Inl e, s)
             | Inr msg \<Rightarrow> (Inr (), s\<lparr>details_html := template record_error_strings [msg]\<rparr>))
          else
            (case and_then (Get data (lit ''raw''))
                    (\<lambda>r. let raw = or_else r (JObj []) in
                      and_then (Object_keys raw)
                        (\<lambda>ks. let keys = sort ks in
                           and_then (details_head data)
                             (\<lambda>html. and_then (forEach_key raw keys html)
                                (\<lambda>html. Inr (html @ lit ''</div>''))))) of
               Inl e \<Rightarrow> (Inl e, s)
             | Inr html \<Rightarrow> (Inr (), s\<lparr>details_html := html\<rparr>)))"

definition loadDetails_on_error :: "ui \<Rightarrow> ui" where
  "loadDetails_on_error s = s\<lparr>details_html := template details_error_strings []\<rparr>"

definition loadDetails_settled :: "fetch_outcome \<Rightarrow> ui \<Rightarrow> (jserror + unit) \<times> ui" where
  "loadDetails_settled =
     then_then_catch loadDetails_on_response loadDetails_on_data loadDetails_on_error"

section \<open>Vocabulary of the properties\<close>

text \<open>
  The string form of a value when it has one, and the values that have one: every
  primitive, an array of such values, and an object with no own \<^verbatim>\<open>toString\<close> property.
\<close>

definition string_form :: "jsval \<Rightarrow> jstring" where
  "string_form v = (case ToString v of Inr s \<Rightarrow> s | Inl e \<Rightarrow> [])"

fun has_string_form :: "jsval \<Rightarrow> bool" where
  "has_string_form (JArr xs) = list_all has_string_form xs"
| "has_string_form (JObj kvs) = (lit ''toString'' \<notin> set (map fst kvs))"
| "has_string_form v = True"

text \<open>The entity of a character as the HTML rules give it: five characters have one.\<close>

definition escaped_unit :: "code_unit \<Rightarrow> jstring" where
  "escaped_unit c =
     (if c = 0x26 then lit ''&amp;''
      else if c = 0x3C then lit ''&lt;''
      else if c = 0x3E then lit ''&gt;''
      else if c = 0x22 then lit ''&quot;''
      else if c = 0x27 then lit ''&#039;''
      else [c])"

text \<open>The value of a field of a parsed JSON object, \<^verbatim>\<open>undefined\<close> when the field is absent.\<close>

definition field :: "(jstring \<times> jsval) list \<Rightarrow> string \<Rightarrow> jsval" where
  "field fs k = (case map_of fs (lit k) of Some v \<Rightarrow> v | None \<Rightarrow> JUndefined)"

text \<open>A page with nothing in it, the number zero, and the insights of an empty store.\<close>

definition blank_page :: ui where
  "blank_page = \<lparr>q_value = [], insights_html = [], results_html = [], results_cards = [],
     details_html = [], requests = []\<rparr>"

definition zero :: jsval where
  "zero = JNum (Num (lit ''0'') False)"

definition empty_snapshot :: jsval where
  "empty_snapshot = JObj
     [(lit ''total_records'', zero), (lit ''total_amount'', zero),
      (lit ''missing_email_pct'', zero), (lit ''missing_phone_pct'', zero),
      (lit ''duplicate_emails'', zero), (lit ''duplicate_phones'', zero),
      (lit ''top_events'', JObj []), (lit ''top_payment_status'', JObj [])]"

text \<open>What a panel shows for a value: its string form with the five characters escaped.\<close>

definition escaped_form :: "jsval \<Rightarrow> jstring" where
  "escaped_form v = concat (map escaped_unit (string_form v))"

text \<open>
  The responses of the API are JSON objects whose fields are strings, numbers or null. All
  the script needs of such a field is that it has a string form; \<open>well_typed names v\<close>
  says that \<open>v\<close> is an object each of whose fields \<open>names\<close>, present or not, has one.
  A summary such as \<^verbatim>\<open>top_events\<close> is an object of counts, or is absent.
\<close>

definition well_typed :: "string list \<Rightarrow> jsval \<Rightarrow> bool" where
  "well_typed names v =
     (case v of JObj fs \<Rightarrow> list_all (\<lambda>k. has_string_form (field fs k)) names | _ \<Rightarrow> False)"

definition summary_ok :: "jsval \<Rightarrow> bool" where
  "summary_ok v = list_all (\<lambda>kv. has_string_form (snd kv)) (own_entries (or_else v (JObj [])))"

definition insights_fields :: "string list" where
  "insights_fields =
     [''total_records'', ''total_amount'', ''missing_email_pct'', ''missing_phone_pct'',
      ''duplicate_emails'', ''duplicate_phones'']"

definition card_fields :: "string list" where
  "card_fields =
     [''name'', ''payment_status'', ''email'', ''phone'', ''event_name'', ''amount'', ''source'']"

definition details_fields :: "string list" where
  "details_fields =
     [''name'', ''email'', ''phone'', ''payment_status'', ''source_file'', ''row_num'',
      ''event_name'', ''activity_type'', ''activity_date'', ''amount'']"

text \<open>
  The markup of a summary of the dashboard, in the words of the page: the \<^verbatim>\<open>No data.\<close>
  block when the summary has no entry, and otherwise the list with one row per entry, in
  the order of the entries, each row showing the name and the count.
\<close>

definition summary_row :: "jstring \<times> jsval \<Rightarrow> jstring" where
  "summary_row kv =
     lit ''<div class=\"mini-row\"><span>'' @ concat (map escaped_unit (fst kv)) @
     lit ''</span><b>'' @ escaped_form (snd kv) @ lit ''</b></div>''"

definition summary_markup :: "jsval \<Rightarrow> jstring" where
  "summary_markup v =
     (if own_entries (or_else v (JObj [])) = [] then lit ''<div class=\"muted\">No data.</div>''
      else
        lit ''\<newline>'' @
        lit ''      <div class=\"mini-list\">\<newline>'' @
        lit ''        '' @
        concat (map summary_row (own_entries (or_else v (JObj [])))) @
        lit ''\<newline>'' @
        lit ''      </div>\<newline>'' @
        lit ''    '')"

text \<open>
  The row of the details panel for a key of the raw field map: the key, and the string form
  of its value, a null or undefined value shown as the empty string.
\<close>

definition raw_row :: "(jstring \<times> jsval) list \<Rightarrow> jstring \<Rightarrow> jstring" where
  "raw_row kvs k =
     lit ''<div class=\"k\">'' @ concat (map escaped_unit k) @ lit ''</div><div class=\"v\">'' @
     concat (map escaped_unit
       (case map_of kvs k of
          None \<Rightarrow> []
        | Some v \<Rightarrow> if is_nullish v then [] else string_form v)) @
     lit ''</div>''"

text \<open>Sample responses: an insights snapshot, a search result of two records, and a record.\<close>

definition sample_insights :: "(jstring \<times> jsval) list" where
  "sample_insights =
     [(lit ''total_records'', JNum (Num (lit ''5'') True)),
      (lit ''total_amount'', JNum (Num (lit ''120.5'') True)),
      (lit ''missing_email_pct'', JNum (Num (lit ''20'') True)),
      (lit ''missing_phone_pct'', JNum (Num (lit ''0'') False)),
      (lit ''duplicate_emails'', JNum (Num (lit ''2'') True)),
      (lit ''duplicate_phones'', JNum (Num (lit ''0'') False)),
      (lit ''top_events'',
         JObj [(lit ''Gala'', JNum (Num (lit ''3'') True)),
               (lit ''Q&A'', JNum (Num (lit ''2'') True))]),
      (lit ''top_payment_status'', JObj [(lit ''paid'', JNum (Num (lit ''4'') True))])]"

definition sample_results :: "jsval list" where
  "sample_results =
     [JObj [(lit ''id'', JStr (lit ''r1'')), (lit ''name'', JStr (lit ''Ali'')),
            (lit ''email'', JStr (lit ''a@x.com'')), (lit ''phone'', JNull),
            (lit ''amount'', JNum (Num (lit ''12.5'') True))],
      JObj [(lit ''id'', JStr (lit ''r2'')), (lit ''name'', JStr (lit ''Bo''))]]"

definition sample_raw :: "(jstring \<times> jsval) list" where
  "sample_raw =
     [(lit ''Name'', JStr (lit ''Ali'')), (lit ''E-mail'', JStr (lit ''A@x.com'')),
      (lit ''Note'', JNull)]"

definition sample_record :: "(jstring \<times> jsval) list" where
  "sample_record =
     [(lit ''id'', JStr (lit ''r1'')), (lit ''name'', JStr (lit ''Ali'')),
      (lit ''email'', JStr (lit ''a@x.com'')), (lit ''phone'', JNull),
      (lit ''source_file'', JStr (lit ''a.csv'')), (lit ''row_num'', JNum (Num (lit ''1'') True)),
      (lit ''raw'', JObj sample_raw)]"

section \<open>Lemmas\<close>

subsection \<open>Exceptions, literals and string forms\<close>

lemma and_then_Inr [simp]: "and_then (Inr x) f = f x"
  by (simp add: and_then_def)

lemma and_then_Inl [simp]: "and_then (Inl e) f = Inl e"
  by (simp add: and_then_def)

text \<open>
  The replacement that \<open>escapeHtml\<close> does, character class and table together, is the
  replacement of each code unit by its entity; no entity holds an angle bracket or a quote.
\<close>

lemma special_entity: "(if html_special c then entity c else [c]) = escaped_unit c"
  by (simp add: html_special_def entity_def entity_table_def escaped_unit_def)

lemma replace_special_units: "replace_special s = concat (map escaped_unit s)"
  by (simp add: replace_special_def special_entity)

lemma escaped_unit_clean: "set (escaped_unit c) \<inter> {0x3C, 0x3E, 0x22, 0x27} = {}"
  by (simp add: escaped_unit_def lit_def)

lemma replace_special_clean: "set (replace_special s) \<inter> {0x3C, 0x3E, 0x22, 0x27} = {}"
  using escaped_unit_clean by (simp add: replace_special_units)

text \<open>\<^verbatim>\<open>String(v)\<close> returns on every value that has a string form.\<close>

lemma ToString_total_aux:
  "has_string_form v \<Longrightarrow> \<exists>s. ToString v = Inr s"
  "list_all has_string_form xs \<Longrightarrow> \<exists>s. join_comma xs = Inr s"
proof (induction v and xs rule: ToString_join_comma.induct)
  case (9 x xs)
  then show ?case by (auto simp: is_nullish_def)
qed simp_all

lemma has_string_form_ToString: "has_string_form v \<Longrightarrow> ToString v = Inr (string_form v)"
  using ToString_total_aux(1) [of v] by (auto simp: string_form_def)

text \<open>Reading a field of an object, and escaping it.\<close>

lemma Get_JObj: "Get (JObj fs) (lit k) = Inr (field fs k)"
  by (simp add: Get_def is_nullish_def field_def split: option.splits)

lemma escapeHtml_ok: "has_string_form v \<Longrightarrow> escapeHtml v = Inr (replace_special (string_form v))"
  by (simp add: escapeHtml_def has_string_form_ToString)

lemma esc_field_JObj: "esc_field (JObj fs) k = escapeHtml (field fs k)"
  by (simp add: esc_field_def Get_JObj)

lemma esc_field_or_JObj:
  "esc_field_or (JObj fs) k d = escapeHtml (or_else (field fs k) (JStr d))"
  by (simp add: esc_field_or_def Get_JObj)

lemma has_string_form_or_else: "has_string_form v \<Longrightarrow> has_string_form (or_else v (JStr d))"
  by (simp add: or_else_def)

subsection \<open>encodeURIComponent\<close>

text \<open>A well-formed string has an encoding: only an unpaired surrogate makes the encoder throw.\<close>

lemma lead_not_trail: "is_lead c \<Longrightarrow> \<not> is_trail c"
  by (auto simp: is_lead_def is_trail_def word_le_nat_alt)

lemma unescaped_not_surrogate: "uri_unescaped c \<Longrightarrow> \<not> is_lead c \<and> \<not> is_trail c"
  by (auto simp: uri_unescaped_def is_lead_def is_trail_def word_le_nat_alt)

lemma encodeURIComponent_total: "isWellFormed q \<Longrightarrow> \<exists>e. encodeURIComponent q = Inr e"
proof (induction q rule: encodeURIComponent.induct)
  case (3 c d ds)
  show ?case
  proof (cases "uri_unescaped c")
    case True
    with 3 unescaped_not_surrogate [of c] show ?thesis by auto
  next
    case False
    with 3 lead_not_trail [of c] show ?thesis by (auto split: if_splits)
  qed
qed auto

text \<open>A string with an unpaired surrogate has none: the encoder throws a URIError.\<close>

lemma encodeURIComponent_malformed: "\<not> isWellFormed q \<Longrightarrow> encodeURIComponent q = Inl URIError"
proof (induction q rule: encodeURIComponent.induct)
  case 1
  then show ?case by simp
next
  case (2 c)
  with unescaped_not_surrogate [of c] show ?case by auto
next
  case (3 c d ds)
  show ?case
  proof (cases "uri_unescaped c")
    case True
    with 3 unescaped_not_surrogate [of c] show ?thesis by auto
  next
    case False
    with 3 lead_not_trail [of c] show ?thesis by (auto split: if_splits)
  qed
qed

subsection \<open>Literals\<close>

text \<open>Two literals are the same string only if their source texts are the same.\<close>

lemma of_char_less_256: "of_char c < (256::nat)"
  by (metis of_char_mod_256 mod_less_divisor zero_less_numeral)

lemma lit_unit_eq_iff: "(word_of_nat (of_char c) :: 16 word) = word_of_nat (of_char d) \<longleftrightarrow> c = d"
proof -
  have "take_bit 16 (of_char x :: nat) = of_char x" for x
  proof (rule take_bit_nat_eq_self)
    have "of_char x < (256::nat)" by (rule of_char_less_256)
    also have "(256::nat) < 2 ^ 16" by simp
    finally show "of_char x < (2::nat) ^ 16" .
  qed
  then show ?thesis
    by (simp add: word_of_nat_eq_iff)
qed

lemma lit_eq_iff: "lit a = lit b \<longleftrightarrow> a = b"
proof -
  have "inj (\<lambda>c. word_of_nat (of_char c) :: 16 word)"
    by (rule injI) (simp add: lit_unit_eq_iff)
  then show ?thesis
    by (simp add: lit_def inj_map_eq_map)
qed

subsection \<open>Settled requests\<close>

text \<open>
  When the request is answered with an ok status and a body that parses, and the data
  callback returns, the chain ends in the state the data callback left.
\<close>

lemma loadDetails_settled_data:
  "loadDetails_on_data d s = (Inr u, s') \<Longrightarrow> loadDetails_settled (Responded True (Inr d)) s = (Inr u, s')"
  by (simp add: loadDetails_settled_def then_then_catch_def loadDetails_on_response_def)

lemma doSearch_settled_data:
  "doSearch_on_data d s = (Inr u, s') \<Longrightarrow> doSearch_settled (Responded True (Inr d)) s = (Inr u, s')"
  by (simp add: doSearch_settled_def then_then_catch_def doSearch_on_response_def)

lemma loadInsights_settled_data:
  "loadInsights_on_data d s = (Inr u, s') \<Longrightarrow> loadInsights_settled (Responded True (Inr d)) s = (Inr u, s')"
  by (simp add: loadInsights_settled_def then_then_catch_def loadInsights_on_response_def)

subsection \<open>Rendering\<close>

text \<open>Rendering succeeds on the values that have a string form.\<close>

lemma escapeHtml_form: "has_string_form v \<Longrightarrow> escapeHtml v = Inr (escaped_form v)"
  by (simp add: escapeHtml_ok escaped_form_def replace_special_units)

lemma Object_entries_or_else: "Object_entries (or_else v (JObj [])) = Inr (own_entries (or_else v (JObj [])))"
  by (cases v) (auto simp: Object_entries_def or_else_def is_nullish_def)

lemma in_order_map: "list_all (\<lambda>x. f x = Inr (g x)) xs \<Longrightarrow> in_order (map f xs) = Inr (map g xs)"
  by (induction xs) auto

text \<open>
  \<open>renderMiniList\<close> returns the markup of the summary: one row per entry, in the order of
  the entries.
\<close>

lemma escapeHtml_JStr: "escapeHtml (JStr k) = Inr (concat (map escaped_unit k))"
  by (simp add: escapeHtml_def replace_special_units)

lemma mini_row_markup: "has_string_form (snd kv) \<Longrightarrow> mini_row kv = Inr (summary_row kv)"
  by (simp add: mini_row_def escapeHtml_form escapeHtml_JStr summary_row_def mini_row_strings_def)

lemma renderMiniList_markup: "summary_ok v \<Longrightarrow> renderMiniList v = Inr (summary_markup v)"
proof -
  assume "summary_ok v"
  then have "list_all (\<lambda>kv. mini_row kv = Inr (summary_row kv)) (own_entries (or_else v (JObj [])))"
    unfolding summary_ok_def by (rule list.pred_mono_strong) (simp add: mini_row_markup)
  then have "in_order (map mini_row (own_entries (or_else v (JObj [])))) =
      Inr (map summary_row (own_entries (or_else v (JObj []))))"
    by (rule in_order_map)
  then show ?thesis
    by (simp add: renderMiniList_def Object_entries_or_else summary_markup_def
        no_data_strings_def mini_list_strings_def)
qed

text \<open>Building the card of a record, and the loop over the results.\<close>

lemma or_else_form: "has_string_form v \<Longrightarrow> escapeHtml (or_else v (JStr d)) = Inr (escaped_form (or_else v (JStr d)))"
  by (simp add: escapeHtml_form has_string_form_or_else)

lemma card_markup_ok:
  assumes "well_typed card_fields r"
  shows "\<exists>html. card_markup r = Inr html"
proof -
  from assms obtain fs where r: "r = JObj fs"
    by (auto simp: well_typed_def split: jsval.splits)
  from assms show ?thesis
    unfolding r
    by (simp add: well_typed_def card_fields_def card_markup_def esc_field_JObj
        esc_field_or_JObj or_else_form escapeHtml_form Get_JObj del: template.simps)
qed

lemma make_card_ok: "well_typed card_fields r \<Longrightarrow> \<exists>c. make_card r = Inr c"
  using card_markup_ok [of r] by (auto simp: make_card_def)

lemma forEach_record_cards:
  "list_all (\<lambda>r. \<exists>c. make_card r = Inr c) rs \<Longrightarrow>
     \<exists>cs. list_all2 (\<lambda>r c. make_card r = Inr c) rs cs \<and>
          forEach_record rs s = (Inr (), s\<lparr>results_cards := results_cards s @ cs\<rparr>)"
proof (induction rs arbitrary: s)
  case Nil
  then show ?case by simp
next
  case (Cons r rs)
  from Cons.prems obtain c where c: "make_card r = Inr c" by auto
  from Cons.prems have "list_all (\<lambda>r. \<exists>c. make_card r = Inr c) rs" by simp
  from Cons.IH [OF this, of "s\<lparr>results_cards := results_cards s @ [c]\<rparr>"]
  obtain cs where cs: "list_all2 (\<lambda>r c. make_card r = Inr c) rs cs"
    "forEach_record rs (s\<lparr>results_cards := results_cards s @ [c]\<rparr>) =
       (Inr (), s\<lparr>results_cards := results_cards s @ c # cs\<rparr>)"
    by auto
  have "list_all2 (\<lambda>r c. make_card r = Inr c) (r # rs) (c # cs)"
    using c cs(1) by simp
  moreover have "forEach_record (r # rs) s = (Inr (), s\<lparr>results_cards := results_cards s @ (c # cs)\<rparr>)"
    using c cs(2) by simp
  ultimately show ?case by blast
qed

text \<open>The name of an array index is made of digits, so it is never \<^verbatim>\<open>length\<close>.\<close>

lemma unit_of_digit: "d < 10 \<Longrightarrow> (word_of_nat (48 + d) :: code_unit) \<noteq> 0x6C"
proof
  assume d: "d < 10" and eq: "(word_of_nat (48 + d) :: code_unit) = 0x6C"
  have "unat (word_of_nat (48 + d) :: code_unit) = (48 + d) mod 2 ^ LENGTH(16)"
    by (rule unat_of_nat)
  also from d have "\<dots> = 48 + d" by simp
  finally have "unat (0x6C :: code_unit) = 48 + d"
    unfolding eq .
  with d show False by simp
qed

lemma dec_no_letter: "0x6C \<notin> set (dec n)"
proof (induction n rule: dec.induct)
  case (1 n)
  show ?case
  proof (cases "n < 10")
    case True
    with unit_of_digit [of n] show ?thesis
      by (subst dec.simps) auto
  next
    case False
    have "n mod 10 < 10" by simp
    from unit_of_digit [OF this] 1 False show ?thesis
      by (subst dec.simps) auto
  qed
qed

lemma dec_not_length: "dec n \<noteq> lit ''length''"
proof
  assume "dec n = lit ''length''"
  then have "set (dec n) = set (lit ''length'')" by simp
  moreover have "0x6C \<in> set (lit ''length'')" by (simp add: lit_def)
  ultimately show False using dec_no_letter [of n] by simp
qed

lemma Get_length: "Get (JArr rs) (lit ''length'') = Inr (JNum (Num (dec (length rs)) (length rs \<noteq> 0)))"
proof -
  have "lit ''length'' \<notin> set (map dec [0..<length rs])"
  proof
    assume "lit ''length'' \<in> set (map dec [0..<length rs])"
    then obtain i where "dec i = lit ''length''" by auto
    with dec_not_length show False by blast
  qed
  then have m: "map_of (zip (map dec [0..<length rs]) rs) (lit ''length'') = None"
    by (simp add: map_of_zip_is_None)
  show ?thesis
    by (simp add: Get_def is_nullish_def m)
qed

lemma make_card_record: "make_card r = Inr c \<Longrightarrow> card_record c = r"
  by (cases "card_markup r") (auto simp: make_card_def)

lemma cards_in_order: "list_all2 (\<lambda>r c. make_card r = Inr c) rs cs \<Longrightarrow> map card_record cs = rs"
  by (induction rule: list_all2_induct) (simp_all add: make_card_record)

text \<open>The rows of the raw field map.\<close>

lemma Get_JObj_key: "Get (JObj kvs) k = Inr (case map_of kvs k of Some x \<Rightarrow> x | None \<Rightarrow> JUndefined)"
  by (simp add: Get_def is_nullish_def split: option.splits)

lemma kv_row_ok:
  assumes "list_all (\<lambda>kv. has_string_form (snd kv)) kvs"
  shows "kv_row (JObj kvs) k = Inr (raw_row kvs k)"
proof (cases "map_of kvs k")
  case None
  then show ?thesis
    by (simp add: kv_row_def Get_JObj_key coalesce_def is_nullish_def escapeHtml_def
        replace_special_units raw_row_def kv_row_strings_def)
next
  case (Some v)
  then have "(k, v) \<in> set kvs" by (rule map_of_SomeD)
  with assms have "has_string_form v"
    by (auto simp: list_all_iff)
  then have "ToString v = Inr (string_form v)"
    by (rule has_string_form_ToString)
  with Some show ?thesis
    by (simp add: kv_row_def Get_JObj_key coalesce_def escapeHtml_def
        replace_special_units raw_row_def kv_row_strings_def)
qed

lemma forEach_key_rows:
  "(\<And>k. kv_row raw k = Inr (row k)) \<Longrightarrow>
     forEach_key raw keys html = Inr (html @ concat (map row keys))"
  by (induction keys arbitrary: html) simp_all

lemma details_head_ok:
  assumes "well_typed details_fields (JObj fs)"
  shows "\<exists>head. details_head (JObj fs) = Inr head"
  using assms
  by (simp add: well_typed_def details_fields_def details_head_def esc_field_JObj
      esc_field_or_JObj or_else_form escapeHtml_form del: template.simps)

text \<open>The escaped forms of the numbers of the sample insights.\<close>

lemma escaped_form_plain:
  "escaped_form (JNum (Num (lit ''5'') True)) = lit ''5''"
  "escaped_form (JNum (Num (lit ''120.5'') True)) = lit ''120.5''"
  "escaped_form (JNum (Num (lit ''20'') True)) = lit ''20''"
  "escaped_form (JNum (Num (lit ''0'') False)) = lit ''0''"
  "escaped_form (JNum (Num (lit ''2'') True)) = lit ''2''"
  by (simp_all add: escaped_form_def string_form_def escaped_unit_def lit_def)

section \<open>The claims\<close>

subsection \<open>Claim C1\<close>

text \<open>
  Claim C1. For a record response with no \<^verbatim>\<open>error\<close> field (or a falsy one) whose
  displayed fields and raw values have a string form, the details panel is the head of the
  details layout followed by one key/value row for every key of the raw object and the
  closing tag. The row of a key shows the key and the string form of its value, the empty
  string for a null or undefined value; the rows stand in sorted key order, each key of the
  raw object once, whatever the order of the keys in the response.
\<close>

theorem loadDetails_raw_rows:
  assumes "\<not> ToBoolean (field fs ''error'')"
    and "well_typed details_fields (JObj fs)"
    and "or_else (field fs ''raw'') (JObj []) = JObj kvs"
    and "distinct (map fst kvs)"
    and "list_all (\<lambda>kv. has_string_form (snd kv)) kvs"
  shows "\<exists>head.
           details_head (JObj fs) = Inr head \<and>
           loadDetails_settled (Responded True (Inr (JObj fs))) s =
             (Inr (),
              s\<lparr>details_html :=
                   head @ concat (map (raw_row kvs) (sort (map fst kvs))) @ lit ''</div>''\<rparr>) \<and>
           sorted (sort (map fst kvs)) \<and>
           distinct (sort (map fst kvs)) \<and>
           set (sort (map fst kvs)) = fst ` set kvs \<and>
           length (sort (map fst kvs)) = length kvs"
proof -
  from assms(2) obtain head where head: "details_head (JObj fs) = Inr head"
    using details_head_ok by blast
  have rows: "forEach_key (JObj kvs) (sort (map fst kvs)) head =
      Inr (head @ concat (map (raw_row kvs) (sort (map fst kvs))))"
    by (rule forEach_key_rows) (rule kv_row_ok [OF assms(5)])
  have "loadDetails_on_data (JObj fs) s =
      (Inr (),
       s\<lparr>details_html :=
            head @ concat (map (raw_row kvs) (sort (map fst kvs))) @ lit ''</div>''\<rparr>)"
    using assms(1)
    by (simp add: loadDetails_on_data_def Get_JObj assms(3) Object_keys_def is_nullish_def
        head rows)
  with head assms(4) show ?thesis
    by (simp add: loadDetails_settled_data)
qed

text \<open>
  The theorem at the sample record, whose raw field map has the keys \<^verbatim>\<open>Name\<close>, \<^verbatim>\<open>E-mail\<close>
  and \<^verbatim>\<open>Note\<close> in this order and a null note: the rows are those of \<^verbatim>\<open>E-mail\<close>, \<^verbatim>\<open>Name\<close>
  and \<^verbatim>\<open>Note\<close>.
\<close>

theorem loadDetails_raw_rows_witness:
  "sort (map fst sample_raw) = [lit ''E-mail'', lit ''Name'', lit ''Note''] \<and>
   (\<exists>head. loadDetails_settled (Responded True (Inr (JObj sample_record))) blank_page =
      (Inr (), blank_page\<lparr>details_html := head @
         (lit ''<div class=\"k\">E-mail</div><div class=\"v\">A@x.com</div>'' @
          lit ''<div class=\"k\">Name</div><div class=\"v\">Ali</div>'' @
          lit ''<div class=\"k\">Note</div><div class=\"v\"></div>'') @ lit ''</div>''\<rparr>))"
proof -
  have f: "field sample_record ''error'' = JUndefined"
    "field sample_record ''raw'' = JObj sample_raw"
    by (simp_all add: field_def sample_record_def lit_eq_iff)
  have h1: "\<not> ToBoolean (field sample_record ''error'')"
    by (simp add: f)
  have h2: "well_typed details_fields (JObj sample_record)"
    by (simp add: well_typed_def details_fields_def field_def sample_record_def lit_eq_iff)
  have h3: "or_else (field sample_record ''raw'') (JObj []) = JObj sample_raw"
    by (simp add: f or_else_def)
  have h4: "distinct (map fst sample_raw)"
    by (simp add: sample_raw_def lit_eq_iff)
  have h5: "list_all (\<lambda>kv. has_string_form (snd kv)) sample_raw"
    by (simp add: sample_raw_def)
  have s: "sort (map fst sample_raw) = [lit ''E-mail'', lit ''Name'', lit ''Note'']"
    unfolding sample_raw_def by code_simp
  have r: "raw_row sample_raw (lit ''E-mail'') = lit ''<div class=\"k\">E-mail</div><div class=\"v\">A@x.com</div>''"
    "raw_row sample_raw (lit ''Name'') = lit ''<div class=\"k\">Name</div><div class=\"v\">Ali</div>''"
    "raw_row sample_raw (lit ''Note'') = lit ''<div class=\"k\">Note</div><div class=\"v\"></div>''"
    unfolding sample_raw_def by code_simp+
  from loadDetails_raw_rows [OF h1 h2 h3 h4 h5, of blank_page] s r show ?thesis
    by auto
qed

subsection \<open>Claim C2\<close>

text \<open>
  Claim C2. When the text of the query box is empty after trimming, \<open>doSearch\<close> returns
  at once: the state of the page is the one it started from, so no request was issued and
  the results and details panels are untouched.
\<close>

theorem doSearch_blank_query: "trim (q_value s) = [] \<Longrightarrow> doSearch s = (Inr (), s)"
  by (simp add: doSearch_def)

text \<open>The theorem at a query of a space, a tab, a no-break space and a line feed.\<close>

theorem doSearch_blank_query_witness:
  "doSearch (blank_page\<lparr>q_value := [0x20, 0x09, 0xA0, 0x0A]\<rparr>) =
     (Inr (), blank_page\<lparr>q_value := [0x20, 0x09, 0xA0, 0x0A]\<rparr>)"
proof -
  have "trim (q_value (blank_page\<lparr>q_value := [0x20, 0x09, 0xA0, 0x0A]\<rparr>)) = []"
    by (simp add: trim_def is_white_space_def)
  then show ?thesis by (rule doSearch_blank_query)
qed

subsection \<open>Claim C3\<close>

text \<open>
  Claim C3, as the code has it. When the \<^verbatim>\<open>error\<close> field of a record response is truthy
  and has a string form (a message that is not empty), the details panel shows the escaped
  message in the muted block and nothing else of the response, and neither callback throws:
  the response is handled as data.
\<close>

theorem loadDetails_error_message:
  assumes "ToBoolean (field fs ''error'')" and "has_string_form (field fs ''error'')"
  shows "loadDetails_on_data (JObj fs) s =
           (Inr (), s\<lparr>details_html := lit ''<div class=\"muted\">'' @
               concat (map escaped_unit (string_form (field fs ''error''))) @ lit ''</div>''\<rparr>) \<and>
         loadDetails_settled (Responded True (Inr (JObj fs))) s =
           (Inr (), s\<lparr>details_html := lit ''<div class=\"muted\">'' @
               concat (map escaped_unit (string_form (field fs ''error''))) @ lit ''</div>''\<rparr>)"
proof -
  have "loadDetails_on_data (JObj fs) s =
           (Inr (), s\<lparr>details_html := lit ''<div class=\"muted\">'' @
               concat (map escaped_unit (string_form (field fs ''error''))) @ lit ''</div>''\<rparr>)"
    using assms
    by (simp add: loadDetails_on_data_def Get_JObj esc_field_JObj escapeHtml_ok
        replace_special_units record_error_strings_def)
  then show ?thesis
    by (simp add: loadDetails_settled_data)
qed

text \<open>The theorem at the message \<^verbatim>\<open>Record <7> not found\<close>.\<close>

theorem loadDetails_error_message_witness:
  "details_html (snd (loadDetails_settled
      (Responded True (Inr (JObj [(lit ''error'', JStr (lit ''Record <7> not found''))]))) blank_page)) =
     lit ''<div class=\"muted\">Record &lt;7&gt; not found</div>''"
proof -
  let ?fs = "[(lit ''error'', JStr (lit ''Record <7> not found''))]"
  have f: "field ?fs ''error'' = JStr (lit ''Record <7> not found'')"
    by (simp add: field_def)
  have h1: "ToBoolean (field ?fs ''error'')"
    unfolding f by (simp add: lit_def)
  have h2: "has_string_form (field ?fs ''error'')"
    unfolding f by simp
  have e: "concat (map escaped_unit (lit ''Record <7> not found'')) = lit ''Record &lt;7&gt; not found''"
    by (simp add: escaped_unit_def lit_def)
  from loadDetails_error_message [OF h1 h2, of blank_page] show ?thesis
    by (simp add: f string_form_def e) (simp add: lit_def)
qed

text \<open>
  Claim C3 as stated, for every body that contains an \<^verbatim>\<open>error\<close> field, fails: the guard
  \<^verbatim>\<open>if (data.error)\<close> tests the truth value, so for the body \<^verbatim>\<open>{"error": ""}\<close> the whole
  details layout is rendered, with the source shown as \<^verbatim>\<open>undefined:undefined\<close>.
\<close>

theorem loadDetails_empty_error_counterexample:
  "details_html (snd (loadDetails_settled
      (Responded True (Inr (JObj [(lit ''error'', JStr [])]))) blank_page)) =
     template details_head_strings
       [[], [], [], [0x2014], lit ''undefined'', lit ''undefined'',
        [0x2014], [0x2014], [0x2014], [0x2014]] @ lit ''</div>'' \<and>
   details_html (snd (loadDetails_settled
      (Responded True (Inr (JObj [(lit ''error'', JStr [])]))) blank_page)) \<noteq>
     lit ''<div class=\"muted\"></div>''"
proof -
  let ?fs = "[(lit ''error'', JStr [])]"
  have f: "field ?fs k = (if k = ''error'' then JStr [] else JUndefined)" for k
    by (simp add: field_def lit_eq_iff)
  have u: "escapeHtml JUndefined = Inr (lit ''undefined'')"
    by (simp add: escapeHtml_def replace_special_units escaped_unit_def lit_def)
  have d: "escapeHtml (JStr [0x2014]) = Inr [0x2014]" "escapeHtml (JStr []) = Inr []"
    by (simp_all add: escapeHtml_def replace_special_units escaped_unit_def)
  have h: "details_head (JObj ?fs) = Inr (template details_head_strings
       [[], [], [], [0x2014], lit ''undefined'', lit ''undefined'',
        [0x2014], [0x2014], [0x2014], [0x2014]])"
    by (simp add: details_head_def esc_field_JObj esc_field_or_JObj f or_else_def u d
        del: template.simps)
  have "loadDetails_on_data (JObj ?fs) blank_page =
      (Inr (), blank_page\<lparr>details_html := template details_head_strings
       [[], [], [], [0x2014], lit ''undefined'', lit ''undefined'',
        [0x2014], [0x2014], [0x2014], [0x2014]] @ lit ''</div>''\<rparr>)"
    by (simp add: loadDetails_on_data_def Get_JObj f or_else_def Object_keys_def
        is_nullish_def h del: template.simps)
  then have eq: "details_html (snd (loadDetails_settled
      (Responded True (Inr (JObj ?fs))) blank_page)) =
     template details_head_strings
       [[], [], [], [0x2014], lit ''undefined'', lit ''undefined'',
        [0x2014], [0x2014], [0x2014], [0x2014]] @ lit ''</div>''"
    by (simp add: loadDetails_settled_data)
  have a: "hd (template details_head_strings
       [[], [], [], [0x2014], lit ''undefined'', lit ''undefined'',
        [0x2014], [0x2014], [0x2014], [0x2014]] @ lit ''</div>'') = 0x0A"
    by (simp add: details_head_strings_def lit_def)
  have b: "hd (lit ''<div class=\"muted\"></div>'') = 0x3C"
    by (simp add: lit_def)
  have "template details_head_strings
       [[], [], [], [0x2014], lit ''undefined'', lit ''undefined'',
        [0x2014], [0x2014], [0x2014], [0x2014]] @ lit ''</div>'' \<noteq> lit ''<div class=\"muted\"></div>''"
  proof
    assume "template details_head_strings
       [[], [], [], [0x2014], lit ''undefined'', lit ''undefined'',
        [0x2014], [0x2014], [0x2014], [0x2014]] @ lit ''</div>'' = lit ''<div class=\"muted\"></div>''"
    with a b have "(0x0A :: code_unit) = 0x3C" by simp
    then show False by simp
  qed
  with eq show ?thesis by simp
qed

subsection \<open>Claim C4\<close>

text \<open>
  Claim C4. For a search response whose \<^verbatim>\<open>results\<close> field is an array of records (objects
  whose displayed fields have a string form), the results panel holds exactly one card per
  element of the array, in the order of the array: the cards are the buttons built from
  the elements one by one, as many as there are elements, and the record behind the
  \<open>i\<close>-th card is the \<open>i\<close>-th element. Nothing but these cards is in the panel (for
  the empty array, the \<^verbatim>\<open>No matches.\<close> notice).
\<close>

theorem doSearch_one_card_per_result:
  assumes "field fs ''results'' = JArr rs" and "list_all (well_typed card_fields) rs"
  shows "\<exists>cs. list_all2 (\<lambda>r c. make_card r = Inr c) rs cs \<and>
           length cs = length rs \<and> map card_record cs = rs \<and>
           doSearch_settled (Responded True (Inr (JObj fs))) s =
             (Inr (),
              s\<lparr>results_html :=
                   (if rs = [] then lit ''<div class=\"muted\">No matches.</div>'' else []),
                results_cards := cs\<rparr>)"
proof -
  from assms(2) have "list_all (\<lambda>r. \<exists>c. make_card r = Inr c) rs"
    by (rule list.pred_mono_strong) (simp add: make_card_ok)
  from forEach_record_cards [OF this, of "set_results [] s"]
  obtain cs where cs: "list_all2 (\<lambda>r c. make_card r = Inr c) rs cs"
    "forEach_record rs (set_results [] s) = (Inr (), s\<lparr>results_html := [], results_cards := cs\<rparr>)"
    by (auto simp: set_results_def)
  have "doSearch_on_data (JObj fs) s =
          (Inr (),
              s\<lparr>results_html :=
                   (if rs = [] then lit ''<div class=\"muted\">No matches.</div>'' else []),
                results_cards := cs\<rparr>)"
    using assms(1) cs
    by (auto simp: doSearch_on_data_def Get_JObj Get_length strict_equals_zero_def
        set_results_def no_matches_strings_def)
  with cs(1) cards_in_order [OF cs(1)] list_all2_lengthD [OF cs(1)] show ?thesis
    by (auto simp: doSearch_settled_data)
qed

text \<open>The theorem at the sample search response of two records.\<close>

theorem doSearch_one_card_per_result_witness:
  "map card_record (results_cards (snd (doSearch_settled
      (Responded True (Inr (JObj [(lit ''results'', JArr sample_results)]))) blank_page))) =
     sample_results \<and>
   length (results_cards (snd (doSearch_settled
      (Responded True (Inr (JObj [(lit ''results'', JArr sample_results)]))) blank_page))) = 2"
proof -
  have h1: "field [(lit ''results'', JArr sample_results)] ''results'' = JArr sample_results"
    by (simp add: field_def)
  have h2: "list_all (well_typed card_fields) sample_results"
    by (simp add: sample_results_def well_typed_def card_fields_def field_def lit_eq_iff)
  have "length sample_results = 2"
    by (simp add: sample_results_def)
  with doSearch_one_card_per_result [OF h1 h2, of blank_page] show ?thesis
    by auto
qed

subsection \<open>Claim C5\<close>

text \<open>
  Claim C5. When the \<^verbatim>\<open>results\<close> field of a search response is absent (or otherwise
  falsy) or is the empty array, the results panel shows the \<^verbatim>\<open>No matches.\<close> notice and
  holds no result card, and the data callback returns without throwing.
\<close>

theorem doSearch_no_matches:
  assumes "\<not> ToBoolean (field fs ''results'') \<or> field fs ''results'' = JArr []"
  shows "doSearch_on_data (JObj fs) s =
           (Inr (), s\<lparr>results_html := lit ''<div class=\"muted\">No matches.</div>'',
                       results_cards := []\<rparr>) \<and>
         doSearch_settled (Responded True (Inr (JObj fs))) s =
           (Inr (), s\<lparr>results_html := lit ''<div class=\"muted\">No matches.</div>'',
                       results_cards := []\<rparr>)"
proof -
  have len: "Get (JArr []) (lit ''length'') = Inr (JNum (Num (dec 0) False))"
    by (simp add: Get_def is_nullish_def)
  have "doSearch_on_data (JObj fs) s =
           (Inr (), s\<lparr>results_html := lit ''<div class=\"muted\">No matches.</div>'',
                       results_cards := []\<rparr>)"
    using assms
    by (auto simp: doSearch_on_data_def Get_JObj set_results_def no_matches_strings_def len
        strict_equals_zero_def)
  then show ?thesis
    by (simp add: doSearch_settled_data)
qed

text \<open>The theorem at the bodies \<^verbatim>\<open>{"results": []}\<close> and \<^verbatim>\<open>{}\<close>.\<close>

theorem doSearch_no_matches_witness:
  "doSearch_settled (Responded True (Inr (JObj [(lit ''results'', JArr [])]))) blank_page =
     (Inr (), blank_page\<lparr>results_html := lit ''<div class=\"muted\">No matches.</div>''\<rparr>) \<and>
   doSearch_settled (Responded True (Inr (JObj []))) blank_page =
     (Inr (), blank_page\<lparr>results_html := lit ''<div class=\"muted\">No matches.</div>''\<rparr>)"
proof -
  have h1: "\<not> ToBoolean (field [(lit ''results'', JArr [])] ''results'') \<or>
            field [(lit ''results'', JArr [])] ''results'' = JArr []"
    by (simp add: field_def)
  have h2: "\<not> ToBoolean (field [] ''results'') \<or> field [] ''results'' = JArr []"
    by (simp add: field_def)
  from doSearch_no_matches [OF h1, of blank_page] doSearch_no_matches [OF h2, of blank_page]
  show ?thesis by (simp add: blank_page_def)
qed

subsection \<open>Claim C6\<close>

text \<open>
  Claim C6. For an insights response whose six scalar fields have a string form and whose
  two summaries are objects of such values (or absent), the chain ends fulfilled and the
  dashboard is the markup written out below: the nine literal strings of the layout with,
  between them and in this order, the escaped \<^verbatim>\<open>total_records\<close>, \<^verbatim>\<open>total_amount\<close>,
  \<^verbatim>\<open>missing_email_pct\<close>, \<^verbatim>\<open>missing_phone_pct\<close>, \<^verbatim>\<open>duplicate_emails\<close> and
  \<^verbatim>\<open>duplicate_phones\<close>, the markup of \<^verbatim>\<open>top_events\<close> and the markup of
  \<^verbatim>\<open>top_payment_status\<close> (one row per entry of the summary, or the \<^verbatim>\<open>No data.\<close> block).
  Each of the eight fields is rendered, and rendered exactly once.
\<close>

theorem loadInsights_eight_fields:
  assumes "well_typed insights_fields (JObj fs)"
    and "summary_ok (field fs ''top_events'')"
    and "summary_ok (field fs ''top_payment_status'')"
  shows "loadInsights_settled (Responded True (Inr (JObj fs))) s =
           (Inr (),
            s\<lparr>insights_html :=
                   lit ''\<newline>'' @
                   lit ''          <div class=\"insight-grid\">\<newline>'' @
                   lit ''            <div class=\"insight\">\<newline>'' @
                   lit ''              <div class=\"insight-k\">Total records</div>\<newline>'' @
                   lit ''              <div class=\"insight-v\">'' @
                   escaped_form (field fs ''total_records'') @
                   lit ''</div>\<newline>'' @
                   lit ''            </div>\<newline>'' @
                   lit ''            <div class=\"insight\">\<newline>'' @
                   lit ''              <div class=\"insight-k\">Total amount</div>\<newline>'' @
                   lit ''              <div class=\"insight-v\">$'' @
                   escaped_form (field fs ''total_amount'') @
                   lit ''</div>\<newline>'' @
                   lit ''            </div>\<newline>'' @
                   lit ''            <div class=\"insight\">\<newline>'' @
                   lit ''              <div class=\"insight-k\">Missing email</div>\<newline>'' @
                   lit ''              <div class=\"insight-v\">'' @
                   escaped_form (field fs ''missing_email_pct'') @
                   lit ''%</div>\<newline>'' @
                   lit ''            </div>\<newline>'' @
                   lit ''            <div class=\"insight\">\<newline>'' @
                   lit ''              <div class=\"insight-k\">Missing phone</div>\<newline>'' @
                   lit ''              <div class=\"insight-v\">'' @
                   escaped_form (field fs ''missing_phone_pct'') @
                   lit ''%</div>\<newline>'' @
                   lit ''            </div>\<newline>'' @
                   lit ''            <div class=\"insight\">\<newline>'' @
                   lit ''              <div class=\"insight-k\">Duplicate emails</div>\<newline>'' @
                   lit ''              <div class=\"insight-v\">'' @
                   escaped_form (field fs ''duplicate_emails'') @
                   lit ''</div>\<newline>'' @
                   lit ''            </div>\<newline>'' @
                   lit ''            <div class=\"insight\">\<newline>'' @
                   lit ''              <div class=\"insight-k\">Duplicate phones</div>\<newline>'' @
                   lit ''              <div class=\"insight-v\">'' @
                   escaped_form (field fs ''duplicate_phones'') @
                   lit ''</div>\<newline>'' @
                   lit ''            </div>\<newline>'' @
                   lit ''          </div>\<newline>'' @
                   lit ''\<newline>'' @
                   lit ''          <div class=\"insight-sep\"></div>\<newline>'' @
                   lit ''\<newline>'' @
                   lit ''          <div class=\"mini\">\<newline>'' @
                   lit ''            <div class=\"mini-title\">Top events</div>\<newline>'' @
                   lit ''            '' @
                   summary_markup (field fs ''top_events'') @
                   lit ''\<newline>'' @
                   lit ''          </div>\<newline>'' @
                   lit ''\<newline>'' @
                   lit ''          <div class=\"mini\" style=\"margin-top:12px;\">\<newline>'' @
                   lit ''            <div class=\"mini-title\">Payment status</div>\<newline>'' @
                   lit ''            '' @
                   summary_markup (field fs ''top_payment_status'') @
                   lit ''\<newline>'' @
                   lit ''          </div>\<newline>'' @
                   lit ''        ''\<rparr>)"
proof -
  from assms(1) have
    "loadInsights_on_data (JObj fs) s =
       (Inr (),
        s\<lparr>insights_html := template insights_strings
             [escaped_form (field fs ''total_records''),
              escaped_form (field fs ''total_amount''),
              escaped_form (field fs ''missing_email_pct''),
              escaped_form (field fs ''missing_phone_pct''),
              escaped_form (field fs ''duplicate_emails''),
              escaped_form (field fs ''duplicate_phones''),
              summary_markup (field fs ''top_events''),
              summary_markup (field fs ''top_payment_status'')]\<rparr>)"
    by (simp add: well_typed_def insights_fields_def loadInsights_on_data_def esc_field_JObj
        escapeHtml_form Get_JObj renderMiniList_markup [OF assms(2)]
        renderMiniList_markup [OF assms(3)] del: template.simps)
  then have "loadInsights_settled (Responded True (Inr (JObj fs))) s =
       (Inr (),
        s\<lparr>insights_html := template insights_strings
             [escaped_form (field fs ''total_records''),
              escaped_form (field fs ''total_amount''),
              escaped_form (field fs ''missing_email_pct''),
              escaped_form (field fs ''missing_phone_pct''),
              escaped_form (field fs ''duplicate_emails''),
              escaped_form (field fs ''duplicate_phones''),
              summary_markup (field fs ''top_events''),
              summary_markup (field fs ''top_payment_status'')]\<rparr>)"
    by (rule loadInsights_settled_data)
  then show ?thesis
    by (simp add: insights_strings_def)
qed

text \<open>
  The theorem at the sample insights: two events, the second with an ampersand in its
  name, and one payment status.
\<close>

theorem loadInsights_eight_fields_witness:
  "insights_html (snd (loadInsights_settled (Responded True (Inr (JObj sample_insights))) blank_page)) =
         lit ''\<newline>'' @
         lit ''          <div class=\"insight-grid\">\<newline>'' @
         lit ''            <div class=\"insight\">\<newline>'' @
         lit ''              <div class=\"insight-k\">Total records</div>\<newline>'' @
         lit ''              <div class=\"insight-v\">'' @
         lit ''5'' @
         lit ''</div>\<newline>'' @
         lit ''            </div>\<newline>'' @
         lit ''            <div class=\"insight\">\<newline>'' @
         lit ''              <div class=\"insight-k\">Total amount</div>\<newline>'' @
         lit ''              <div class=\"insight-v\">$'' @
         lit ''120.5'' @
         lit ''</div>\<newline>'' @
         lit ''            </div>\<newline>'' @
         lit ''            <div class=\"insight\">\<newline>'' @
         lit ''              <div class=\"insight-k\">Missing email</div>\<newline>'' @
         lit ''              <div class=\"insight-v\">'' @
         lit ''20'' @
         lit ''%</div>\<newline>'' @
         lit ''            </div>\<newline>'' @
         lit ''            <div class=\"insight\">\<newline>'' @
         lit ''              <div class=\"insight-k\">Missing phone</div>\<newline>'' @
         lit ''              <div class=\"insight-v\">'' @
         lit ''0'' @
         lit ''%</div>\<newline>'' @
         lit ''            </div>\<newline>'' @
         lit ''            <div class=\"insight\">\<newline>'' @
         lit ''              <div class=\"insight-k\">Duplicate emails</div>\<newline>'' @
         lit ''              <div class=\"insight-v\">'' @
         lit ''2'' @
         lit ''</div>\<newline>'' @
         lit ''            </div>\<newline>'' @
         lit ''            <div class=\"insight\">\<newline>'' @
         lit ''              <div class=\"insight-k\">Duplicate phones</div>\<newline>'' @
         lit ''              <div class=\"insight-v\">'' @
         lit ''0'' @
         lit ''</div>\<newline>'' @
         lit ''            </div>\<newline>'' @
         lit ''          </div>\<newline>'' @
         lit ''\<newline>'' @
         lit ''          <div class=\"insight-sep\"></div>\<newline>'' @
         lit ''\<newline>'' @
         lit ''          <div class=\"mini\">\<newline>'' @
         lit ''            <div class=\"mini-title\">Top events</div>\<newline>'' @
         lit ''            '' @
         lit ''\<newline>'' @
         lit ''      <div class=\"mini-list\">\<newline>'' @
         lit ''        '' @
         lit ''<div class=\"mini-row\"><span>Gala</span><b>3</b></div>'' @
         lit ''<div class=\"mini-row\"><span>Q&amp;A</span><b>2</b></div>'' @
         lit ''\<newline>'' @
         lit ''      </div>\<newline>'' @
         lit ''    '' @
         lit ''\<newline>'' @
         lit ''          </div>\<newline>'' @
         lit ''\<newline>'' @
         lit ''          <div class=\"mini\" style=\"margin-top:12px;\">\<newline>'' @
         lit ''            <div class=\"mini-title\">Payment status</div>\<newline>'' @
         lit ''            '' @
         lit ''\<newline>'' @
         lit ''      <div class=\"mini-list\">\<newline>'' @
         lit ''        '' @
         lit ''<div class=\"mini-row\"><span>paid</span><b>4</b></div>'' @
         lit ''\<newline>'' @
         lit ''      </div>\<newline>'' @
         lit ''    '' @
         lit ''\<newline>'' @
         lit ''          </div>\<newline>'' @
         lit ''        ''"
proof -
  have f: "field sample_insights ''total_records'' = JNum (Num (lit ''5'') True)"
    "field sample_insights ''total_amount'' = JNum (Num (lit ''120.5'') True)"
    "field sample_insights ''missing_email_pct'' = JNum (Num (lit ''20'') True)"
    "field sample_insights ''missing_phone_pct'' = JNum (Num (lit ''0'') False)"
    "field sample_insights ''duplicate_emails'' = JNum (Num (lit ''2'') True)"
    "field sample_insights ''duplicate_phones'' = JNum (Num (lit ''0'') False)"
    "field sample_insights ''top_events'' =
       JObj [(lit ''Gala'', JNum (Num (lit ''3'') True)), (lit ''Q&A'', JNum (Num (lit ''2'') True))]"
    "field sample_insights ''top_payment_status'' = JObj [(lit ''paid'', JNum (Num (lit ''4'') True))]"
    by (simp_all add: field_def sample_insights_def lit_eq_iff)
  have h1: "well_typed insights_fields (JObj sample_insights)"
    by (simp add: well_typed_def insights_fields_def f)
  have h2: "summary_ok (field sample_insights ''top_events'')"
    by (simp add: f summary_ok_def or_else_def)
  have h3: "summary_ok (field sample_insights ''top_payment_status'')"
    by (simp add: f summary_ok_def or_else_def)
  have r: "summary_row (lit ''Gala'', JNum (Num (lit ''3'') True)) =
        lit ''<div class=\"mini-row\"><span>Gala</span><b>3</b></div>''"
    "summary_row (lit ''Q&A'', JNum (Num (lit ''2'') True)) =
        lit ''<div class=\"mini-row\"><span>Q&amp;A</span><b>2</b></div>''"
    "summary_row (lit ''paid'', JNum (Num (lit ''4'') True)) =
        lit ''<div class=\"mini-row\"><span>paid</span><b>4</b></div>''"
    by (simp_all add: summary_row_def escaped_form_def string_form_def escaped_unit_def lit_def)
  have m: "summary_markup (JObj [(lit ''Gala'', JNum (Num (lit ''3'') True)),
                                 (lit ''Q&A'', JNum (Num (lit ''2'') True))]) =
        lit ''\<newline>'' @
        lit ''      <div class=\"mini-list\">\<newline>'' @
        lit ''        '' @
        lit ''<div class=\"mini-row\"><span>Gala</span><b>3</b></div>'' @
        lit ''<div class=\"mini-row\"><span>Q&amp;A</span><b>2</b></div>'' @
        lit ''\<newline>'' @
        lit ''      </div>\<newline>'' @
        lit ''    ''"
    "summary_markup (JObj [(lit ''paid'', JNum (Num (lit ''4'') True))]) =
        lit ''\<newline>'' @
        lit ''      <div class=\"mini-list\">\<newline>'' @
        lit ''        '' @
        lit ''<div class=\"mini-row\"><span>paid</span><b>4</b></div>'' @
        lit ''\<newline>'' @
        lit ''      </div>\<newline>'' @
        lit ''    ''"
    by (simp_all add: summary_markup_def or_else_def r)
  from loadInsights_eight_fields [OF h1 h2 h3, of blank_page] show ?thesis
    by (simp add: f m escaped_form_plain)
qed

subsection \<open>Claim C7\<close>

text \<open>
  Claim C7. \<open>renderMiniList\<close> returns the \<^verbatim>\<open>No data.\<close> block, without throwing, for
  \<^verbatim>\<open>null\<close>, for \<^verbatim>\<open>undefined\<close> and for the empty object, and the insights of an empty
  store are rendered with zero values and two such blocks rather than failing.
\<close>

theorem renderMiniList_no_data:
  "renderMiniList JNull = Inr (lit ''<div class=\"muted\">No data.</div>'') \<and>
   renderMiniList JUndefined = Inr (lit ''<div class=\"muted\">No data.</div>'') \<and>
   renderMiniList (JObj []) = Inr (lit ''<div class=\"muted\">No data.</div>'') \<and>
   loadInsights_on_data empty_snapshot s =
     (Inr (), s\<lparr>insights_html := template insights_strings
        [lit ''0'', lit ''0'', lit ''0'', lit ''0'', lit ''0'', lit ''0'',
         lit ''<div class=\"muted\">No data.</div>'', lit ''<div class=\"muted\">No data.</div>'']\<rparr>)"
proof -
  have n: "renderMiniList JNull = Inr (lit ''<div class=\"muted\">No data.</div>'')"
    by (simp add: renderMiniList_def or_else_def Object_entries_def is_nullish_def no_data_strings_def)
  have u: "renderMiniList JUndefined = Inr (lit ''<div class=\"muted\">No data.</div>'')"
    by (simp add: renderMiniList_def or_else_def Object_entries_def is_nullish_def no_data_strings_def)
  have e: "renderMiniList (JObj []) = Inr (lit ''<div class=\"muted\">No data.</div>'')"
    by (simp add: renderMiniList_def or_else_def Object_entries_def is_nullish_def no_data_strings_def)
  have z: "escapeHtml zero = Inr (lit ''0'')"
    by (simp add: escapeHtml_def zero_def replace_special_units escaped_unit_def lit_def)
  have f: "field fs k = zero \<Longrightarrow> esc_field (JObj fs) k = Inr (lit ''0'')" for fs k
    by (simp add: esc_field_JObj z)
  have "loadInsights_on_data empty_snapshot s =
     (Inr (), s\<lparr>insights_html := template insights_strings
        [lit ''0'', lit ''0'', lit ''0'', lit ''0'', lit ''0'', lit ''0'',
         lit ''<div class=\"muted\">No data.</div>'', lit ''<div class=\"muted\">No data.</div>'']\<rparr>)"
    unfolding loadInsights_on_data_def empty_snapshot_def
    by (simp add: f Get_JObj field_def e lit_eq_iff del: template.simps)
  with n u e show ?thesis by simp
qed

text \<open>The theorem on a blank page.\<close>

theorem renderMiniList_no_data_witness:
  "fst (loadInsights_on_data empty_snapshot blank_page) = Inr ()"
  using renderMiniList_no_data [of blank_page] by simp

subsection \<open>Claim C8\<close>

text \<open>
  Claim C8, as the code has it. Let the trimmed text of the query box be not empty. When it
  is well-formed UTF-16, \<open>doSearch\<close> issues exactly one request: its URL is
  \<^verbatim>\<open>/api/search?q=\<close>, the \<open>encodeURIComponent\<close> encoding of the trimmed text, and
  \<^verbatim>\<open>&limit=25\<close>. When it holds an unpaired surrogate, \<open>encodeURIComponent\<close> throws a
  URIError out of \<open>doSearch\<close> and no request is issued. In both cases the two panels
  show their transient texts.
\<close>

theorem doSearch_one_request:
  assumes "trim (q_value s) \<noteq> []"
  shows "(isWellFormed (trim (q_value s)) \<longrightarrow>
           (\<exists>e. encodeURIComponent (trim (q_value s)) = Inr e \<and>
              doSearch s =
                (Inr (),
                 s\<lparr>results_html := lit ''Searching...'', results_cards := [],
                   details_html := lit ''<div class=\"muted\">Click a result to see full fields.</div>'',
                   requests := requests s @ [lit ''/api/search?q='' @ e @ lit ''&limit=25'']\<rparr>))) \<and>
         (\<not> isWellFormed (trim (q_value s)) \<longrightarrow>
            doSearch s =
              (Inl URIError,
               s\<lparr>results_html := lit ''Searching...'', results_cards := [],
                 details_html := lit ''<div class=\"muted\">Click a result to see full fields.</div>''\<rparr>) \<and>
            requests (snd (doSearch s)) = requests s)"
proof (rule conjI)
  from assms have ne: "q_value s \<noteq> []"
    by (auto simp: trim_def)
  show "isWellFormed (trim (q_value s)) \<longrightarrow>
           (\<exists>e. encodeURIComponent (trim (q_value s)) = Inr e \<and>
              doSearch s =
                (Inr (),
                 s\<lparr>results_html := lit ''Searching...'', results_cards := [],
                   details_html := lit ''<div class=\"muted\">Click a result to see full fields.</div>'',
                   requests := requests s @ [lit ''/api/search?q='' @ e @ lit ''&limit=25'']\<rparr>))"
  proof
    assume "isWellFormed (trim (q_value s))"
    then obtain e where e: "encodeURIComponent (trim (q_value s)) = Inr e"
      using encodeURIComponent_total by blast
    with assms ne show "\<exists>e. encodeURIComponent (trim (q_value s)) = Inr e \<and>
         doSearch s =
           (Inr (),
            s\<lparr>results_html := lit ''Searching...'', results_cards := [],
              details_html := lit ''<div class=\"muted\">Click a result to see full fields.</div>'',
              requests := requests s @ [lit ''/api/search?q='' @ e @ lit ''&limit=25'']\<rparr>)"
      by (simp add: doSearch_def set_results_def details_hint_strings_def)
  qed
  show "\<not> isWellFormed (trim (q_value s)) \<longrightarrow>
            doSearch s =
              (Inl URIError,
               s\<lparr>results_html := lit ''Searching...'', results_cards := [],
                 details_html := lit ''<div class=\"muted\">Click a result to see full fields.</div>''\<rparr>) \<and>
            requests (snd (doSearch s)) = requests s"
  proof
    assume "\<not> isWellFormed (trim (q_value s))"
    then have e: "encodeURIComponent (trim (q_value s)) = Inl URIError"
      by (rule encodeURIComponent_malformed)
    with assms ne show "doSearch s =
        (Inl URIError,
         s\<lparr>results_html := lit ''Searching...'', results_cards := [],
           details_html := lit ''<div class=\"muted\">Click a result to see full fields.</div>''\<rparr>) \<and>
       requests (snd (doSearch s)) = requests s"
      by (simp add: doSearch_def set_results_def details_hint_strings_def)
  qed
qed

text \<open>
  The theorem at the query \<^verbatim>\<open>" ali b "\<close>, which is well formed, and at the query of a
  \<^verbatim>\<open>b\<close> followed by the unpaired trail surrogate U+DC00, which is not.
\<close>

theorem doSearch_one_request_witness:
  "requests (snd (doSearch (blank_page\<lparr>q_value := lit '' ali b ''\<rparr>))) =
     [lit ''/api/search?q=ali%20b&limit=25''] \<and>
   fst (doSearch (blank_page\<lparr>q_value := [0x62, 0xDC00]\<rparr>)) = Inl URIError \<and>
   requests (snd (doSearch (blank_page\<lparr>q_value := [0x62, 0xDC00]\<rparr>))) = []"
proof -
  let ?s = "blank_page\<lparr>q_value := lit '' ali b ''\<rparr>"
  let ?m = "blank_page\<lparr>q_value := [0x62, 0xDC00]\<rparr>"
  have t: "trim (q_value ?s) = lit ''ali b''"
    by (simp add: trim_def is_white_space_def lit_def)
  have enc: "encodeURIComponent (lit ''ali b'') = Inr (lit ''ali%20b'')"
    by code_simp
  have h1: "trim (q_value ?s) \<noteq> []"
    unfolding t by (simp add: lit_def)
  have h2: "isWellFormed (trim (q_value ?s))"
    unfolding t by code_simp
  have u: "trim (q_value ?m) = [0x62, 0xDC00]"
    by (simp add: trim_def is_white_space_def)
  have g1: "trim (q_value ?m) \<noteq> []"
    unfolding u by simp
  have g2: "\<not> isWellFormed (trim (q_value ?m))"
    unfolding u by (simp add: is_lead_def is_trail_def)
  from doSearch_one_request [OF h1] h2 enc t
  have a: "requests (snd (doSearch ?s)) = [lit ''/api/search?q=ali%20b&limit=25'']"
    by (auto simp: blank_page_def lit_def)
  from doSearch_one_request [OF g1] g2
  have b: "fst (doSearch ?m) = Inl URIError \<and> requests (snd (doSearch ?m)) = []"
    by (auto simp: blank_page_def)
  from a b show ?thesis by simp
qed

text \<open>
  Claim C8 as stated, for every input whose trimmed value is not empty, fails: for the
  letter \<^verbatim>\<open>a\<close> followed by the unpaired surrogate U+D800, \<open>encodeURIComponent\<close> throws a
  URIError before \<^verbatim>\<open>fetch\<close> is called, no request is issued, and the results panel keeps
  its transient text.
\<close>

theorem doSearch_lone_surrogate_counterexample:
  "doSearch (blank_page\<lparr>q_value := [0x61, 0xD800]\<rparr>) =
     (Inl URIError,
      blank_page\<lparr>q_value := [0x61, 0xD800], results_html := lit ''Searching...'',
        details_html := lit ''<div class=\"muted\">Click a result to see full fields.</div>''\<rparr>) \<and>
   requests (snd (doSearch (blank_page\<lparr>q_value := [0x61, 0xD800]\<rparr>))) = []"
  by (simp add: doSearch_def trim_def is_white_space_def uri_unescaped_def is_lead_def
      is_trail_def set_results_def details_hint_strings_def blank_page_def and_then_def)

subsection \<open>Claim C9\<close>

text \<open>
  Claim C9, as the code has it. For every value that has a string form \<open>s\<close>, that is,
  whenever \<^verbatim>\<open>String(value)\<close> does not throw, \<open>escapeHtml\<close> returns \<open>s\<close> with each
  occurrence of the ampersand, the two angle brackets, the double quote and the single quote
  replaced by its entity and every other code unit unchanged, and the result holds no
  angle bracket and no quote.
\<close>

theorem escapeHtml_entities:
  "ToString v = Inr s \<Longrightarrow>
     escapeHtml v = Inr (concat (map escaped_unit s)) \<and>
     set (concat (map escaped_unit s)) \<inter> {0x3C, 0x3E, 0x22, 0x27} = {}"
  using replace_special_clean [of s] by (simp add: escapeHtml_def replace_special_units)

text \<open>The theorem at the string \<^verbatim>\<open><b>R&D</b>\<close>.\<close>

theorem escapeHtml_entities_witness:
  "escapeHtml (JStr (lit ''<b>R&D</b>'')) = Inr (lit ''&lt;b&gt;R&amp;D&lt;/b&gt;'')"
proof -
  have h: "ToString (JStr (lit ''<b>R&D</b>'')) = Inr (lit ''<b>R&D</b>'')" by simp
  have "concat (map escaped_unit (lit ''<b>R&D</b>'')) = lit ''&lt;b&gt;R&amp;D&lt;/b&gt;''"
    by (simp add: escaped_unit_def lit_def)
  with escapeHtml_entities [OF h] show ?thesis by simp
qed

text \<open>
  Claim C9 as stated, for every input value, fails: the object parsed from the JSON text
  \<^verbatim>\<open>{"toString": null}\<close> has no string form, and \<open>escapeHtml\<close> throws the TypeError
  of \<^verbatim>\<open>String(value)\<close> instead of returning.
\<close>

theorem escapeHtml_throws_counterexample:
  "escapeHtml (JObj [(lit ''toString'', JNull)]) = Inl TypeError"
  by (simp add: escapeHtml_def)

subsection \<open>Claim C10\<close>

text \<open>
  Claim C10. When the request for the insights, for a search or for a record is rejected
  or answered with a status that is not ok, whatever its body, the chain ends fulfilled
  (no exception leaves it) and the panel of that request shows its fallback message, which
  is not the transient text.
\<close>

theorem failed_request_fallback:
  "loadInsights_settled Rejected s =
     (Inr (), s\<lparr>insights_html := lit ''<div class=\"muted\">Couldn'' @ [0x2019] @ lit ''t load insights.</div>''\<rparr>) \<and>
   loadInsights_settled (Responded False body) s =
     (Inr (), s\<lparr>insights_html := lit ''<div class=\"muted\">Couldn'' @ [0x2019] @ lit ''t load insights.</div>''\<rparr>) \<and>
   doSearch_settled Rejected s =
     (Inr (), s\<lparr>results_html := lit ''<div class=\"muted\">Couldn'' @ [0x2019] @ lit ''t run search right now.</div>'',
                 results_cards := []\<rparr>) \<and>
   doSearch_settled (Responded False body) s =
     (Inr (), s\<lparr>results_html := lit ''<div class=\"muted\">Couldn'' @ [0x2019] @ lit ''t run search right now.</div>'',
                 results_cards := []\<rparr>) \<and>
   loadDetails_settled Rejected s =
     (Inr (), s\<lparr>details_html := lit ''<div class=\"muted\">Couldn'' @ [0x2019] @ lit ''t load this record.</div>''\<rparr>) \<and>
   loadDetails_settled (Responded False body) s =
     (Inr (), s\<lparr>details_html := lit ''<div class=\"muted\">Couldn'' @ [0x2019] @ lit ''t load this record.</div>''\<rparr>) \<and>
   lit ''<div class=\"muted\">Couldn'' @ [0x2019] @ lit ''t load insights.</div>'' \<noteq> lit ''Loading...'' \<and>
   lit ''<div class=\"muted\">Couldn'' @ [0x2019] @ lit ''t run search right now.</div>'' \<noteq> lit ''Searching...'' \<and>
   lit ''<div class=\"muted\">Couldn'' @ [0x2019] @ lit ''t load this record.</div>'' \<noteq> lit ''Loading...''"
proof -
  have a: "lit ''<div class=\"muted\">Couldn'' @ [0x2019] @ lit ''t load insights.</div>'' \<noteq> lit ''Loading...''"
    by (simp add: lit_def)
  have b: "lit ''<div class=\"muted\">Couldn'' @ [0x2019] @ lit ''t run search right now.</div>'' \<noteq> lit ''Searching...''"
    by (simp add: lit_def)
  have c: "lit ''<div class=\"muted\">Couldn'' @ [0x2019] @ lit ''t load this record.</div>'' \<noteq> lit ''Loading...''"
    by (simp add: lit_def)
  have i: "loadInsights_on_error s =
      s\<lparr>insights_html := lit ''<div class=\"muted\">Couldn'' @ [0x2019] @ lit ''t load insights.</div>''\<rparr>"
    by (simp add: loadInsights_on_error_def insights_error_strings_def)
  have d: "doSearch_on_error s =
      s\<lparr>results_html := lit ''<div class=\"muted\">Couldn'' @ [0x2019] @ lit ''t run search right now.</div>'',
        results_cards := []\<rparr>"
    by (simp add: doSearch_on_error_def set_results_def search_error_strings_def)
  have l: "loadDetails_on_error s =
      s\<lparr>details_html := lit ''<div class=\"muted\">Couldn'' @ [0x2019] @ lit ''t load this record.</div>''\<rparr>"
    by (simp add: loadDetails_on_error_def details_error_strings_def)
  have "loadInsights_settled Rejected s = (Inr (), loadInsights_on_error s)"
    and "loadInsights_settled (Responded False body) s = (Inr (), loadInsights_on_error s)"
    and "doSearch_settled Rejected s = (Inr (), doSearch_on_error s)"
    and "doSearch_settled (Responded False body) s = (Inr (), doSearch_on_error s)"
    and "loadDetails_settled Rejected s = (Inr (), loadDetails_on_error s)"
    and "loadDetails_settled (Responded False body) s = (Inr (), loadDetails_on_error s)"
    by (simp_all add: loadInsights_settled_def doSearch_settled_def loadDetails_settled_def
        then_then_catch_def loadInsights_on_response_def doSearch_on_response_def
        loadDetails_on_response_def)
  with a b c i d l show ?thesis by simp
qed

text \<open>
  The theorem at a search for \<^verbatim>\<open>ali\<close> answered with an error status and a body that is not
  JSON, and at the insights request of the page load when it is rejected.
\<close>

theorem failed_request_fallback_witness:
  "results_html (snd (doSearch_settled (Responded False (Inl SyntaxError))
      (snd (doSearch (blank_page\<lparr>q_value := lit ''ali''\<rparr>))))) =
     lit ''<div class=\"muted\">Couldn'' @ [0x2019] @ lit ''t run search right now.</div>'' \<and>
   insights_html (snd (loadInsights_settled Rejected (loadInsights blank_page))) =
     lit ''<div class=\"muted\">Couldn'' @ [0x2019] @ lit ''t load insights.</div>''"
  using failed_request_fallback [of "snd (doSearch (blank_page\<lparr>q_value := lit ''ali''\<rparr>))" "Inl SyntaxError"]
    failed_request_fallback [of "loadInsights blank_page" "Inl SyntaxError"]
  by simp

end
